theory Spec2Isabelle
  imports Complex_Main "HOL-Library.Product_Lexorder"
begin

section \<open>Geometry and projection utilities\<close>

text \<open>
  Coordinates are Python floats in the scripts; they are modelled as real numbers, so
  rounding error, infinities and NaN are outside the model. Pixel coordinates are the
  Python ints the scripts build with \<^verbatim>\<open>int(round(...))\<close>.
\<close>

type_synonym vec3 = "real \<times> real \<times> real"
type_synonym pixel = "int \<times> int"

definition vx :: "vec3 \<Rightarrow> real" where "vx p = fst p"
definition vy :: "vec3 \<Rightarrow> real" where "vy p = fst (snd p)"
definition vz :: "vec3 \<Rightarrow> real" where "vz p = snd (snd p)"

text \<open>
  Python's one-argument \<^verbatim>\<open>round\<close> on a float: to the nearest integer, a tie going
  to the even neighbour.
\<close>

definition py_round :: "real \<Rightarrow> int" where
  "py_round x =
     (let f = \<lfloor>x\<rfloor>; d = x - of_int f
      in if d < 1 / 2 then f
         else if 1 / 2 < d then f + 1
         else if even f then f else f + 1)"

text \<open>
  \<^verbatim>\<open>all_corners_in_frame(cam, corners)\<close>. The engine's
  \<^verbatim>\<open>world_to_camera_view(scene, cam, wp)\<close> is a parameter \<open>w2cv\<close>: it returns
  \<open>(u, v, depth)\<close>.
\<close>

definition in_frame :: "vec3 \<Rightarrow> bool" where
  "in_frame uvw \<longleftrightarrow> 0 \<le> vx uvw \<and> vx uvw \<le> 1 \<and> 0 \<le> vy uvw \<and> vy uvw \<le> 1 \<and> 0 < vz uvw"

fun all_corners_in_frame :: "('c \<Rightarrow> vec3 \<Rightarrow> vec3) \<Rightarrow> 'c \<Rightarrow> vec3 list \<Rightarrow> bool" where
  "all_corners_in_frame w2cv cam [] = True"
| "all_corners_in_frame w2cv cam (wp # corners) =
     (if \<not> in_frame (w2cv cam wp) then False else all_corners_in_frame w2cv cam corners)"

text \<open>
  \<^verbatim>\<open>project_to_pixels(cam, world_points, W, H)\<close> of the two single-camera scripts
  (with and without background).
\<close>

definition project_to_pixels ::
  "('c \<Rightarrow> vec3 \<Rightarrow> vec3) \<Rightarrow> 'c \<Rightarrow> vec3 list \<Rightarrow> int \<Rightarrow> int \<Rightarrow> pixel list" where
  "project_to_pixels w2cv cam world_points W H =
     map (\<lambda>wp.
            let uvw = w2cv cam wp;
                x = py_round (vx uvw * of_int (W - 1));
                y = py_round ((1 - vy uvw) * of_int (H - 1));
                x = max 0 (min (W - 1) x);
                y = max 0 (min (H - 1) y)
            in (x, y)) world_points"

text \<open>\<^verbatim>\<open>project_pixels(cam, wpts, W, H)\<close> of the multi-camera script.\<close>

definition project_pixels ::
  "('c \<Rightarrow> vec3 \<Rightarrow> vec3) \<Rightarrow> 'c \<Rightarrow> vec3 list \<Rightarrow> int \<Rightarrow> int \<Rightarrow> pixel list" where
  "project_pixels w2cv cam wpts W H =
     map (\<lambda>wp.
            let uvw = w2cv cam wp;
                x = max 0 (min (W - 1) (py_round (vx uvw * of_int (W - 1))));
                y = max 0 (min (H - 1) (py_round (vy uvw * of_int (H - 1))))
            in (x, y)) wpts"

text \<open>
  \<^verbatim>\<open>order_tl_tr_br_bl(pxpts)\<close>, the same text in all three scripts. Python's
  \<^verbatim>\<open>sorted\<close> is stable, as \<open>sort_key\<close> is; the key \<^verbatim>\<open>(-p[1], p[0])\<close> is
  compared lexicographically. \<^verbatim>\<open>top[1]\<close> and \<^verbatim>\<open>bot[1]\<close> raise IndexError on
  fewer than four points.
\<close>

datatype py_error = IndexError

definition order_tl_tr_br_bl :: "pixel list \<Rightarrow> py_error + pixel list" where
  "order_tl_tr_br_bl pxpts =
     (let s = sort_key (\<lambda>p. (- snd p, fst p)) pxpts;
          top = sort_key fst (take 2 s);
          bot = sort_key fst (drop 2 s)
      in if length top < 2 \<or> length bot < 2 then Inl IndexError
         else Inr [top ! 0, top ! 1, bot ! 1, bot ! 0])"

text \<open>
  The pixel mapping as the specification words it: \<open>x = round(u (W - 1))\<close>,
  \<open>y = round((1 - v) (H - 1))\<close>, each clamped into its range.
\<close>

definition clamp_into :: "int \<Rightarrow> int \<Rightarrow> int \<Rightarrow> int" where
  "clamp_into lo hi x = (if x < lo then lo else if hi < x then hi else x)"

definition spec_to_pixel :: "real \<Rightarrow> real \<Rightarrow> int \<Rightarrow> int \<Rightarrow> pixel" where
  "spec_to_pixel u v W H =
     (clamp_into 0 (W - 1) (py_round (u * of_int (W - 1))),
      clamp_into 0 (H - 1) (py_round ((1 - v) * of_int (H - 1))))"


section \<open>The random source and the engine\<close>

text \<open>
  The scripts draw every random number from Python's module-level generator, seeded once
  with \<^verbatim>\<open>random.seed(SEED)\<close>. The generator is a parameter: a state \<open>'g\<close> and the
  four operations the scripts call, each returning its result and the next state.
  \<open>randbelow n\<close> is the index drawn by \<^verbatim>\<open>random.choice\<close> on a sequence of
  length \<open>n\<close>.
\<close>

record 'g random_ops =
  uniform :: "real \<Rightarrow> real \<Rightarrow> 'g \<Rightarrow> real \<times> 'g"
  random :: "'g \<Rightarrow> real \<times> 'g"
  randbelow :: "nat \<Rightarrow> 'g \<Rightarrow> nat \<times> 'g"
  randint :: "int \<Rightarrow> int \<Rightarrow> 'g \<Rightarrow> int \<times> 'g"

definition choice :: "'g random_ops \<Rightarrow> 'a list \<Rightarrow> 'g \<Rightarrow> 'a \<times> 'g" where
  "choice ops xs g = (case randbelow ops (length xs) g of (i, g') \<Rightarrow> (xs ! i, g'))"

text \<open>
  A scene object (\<^verbatim>\<open>bpy.types.Object\<close>) with the attributes the scripts read and
  write. A formatted name such as \<^verbatim>\<open>f"Window_{k}"\<close> is kept as the triple of
  its prefix, its number and its suffix.
\<close>

datatype material =
    Window_RGB_EmitTransp | Window_MASK_Union | Black_Emission
  | Window_RGB_Mat | Window_MASK_Mat | BG_Mat real | Occ_Mat real real real

datatype obj_type = MESH | LIGHT | CAMERA

type_synonym obj_name = "string \<times> nat \<times> string"

record obj =
  name :: obj_name
  otype :: obj_type
  scale :: vec3
  location :: vec3
  rotation_euler :: vec3
  hide_render :: bool
  hide_viewport :: bool
  materials :: "material list"
  vertices :: "vec3 list"

text \<open>The pose of an object: what a render and the keypoints depend on.\<close>

definition pose :: "obj \<Rightarrow> vec3 \<times> vec3 \<times> vec3" where
  "pose ob = (location ob, rotation_euler ob, scale ob)"

text \<open>
  \<^verbatim>\<open>plane_world_corners(ob)\<close>. The engine's \<^verbatim>\<open>ob.matrix_world @ v\<close> is a
  parameter \<open>mw\<close>, a function of the object and the mesh-local point.
\<close>

definition plane_world_corners :: "(obj \<Rightarrow> vec3 \<Rightarrow> vec3) \<Rightarrow> obj \<Rightarrow> vec3 list" where
  "plane_world_corners mw ob = map (mw ob) (take 4 (vertices ob))"

section \<open>Settings of the single-camera scripts\<close>

definition IMG_RES :: "int \<times> int" where "IMG_RES = (640, 648)"
definition CAMERA_DIST_MIN :: real where "CAMERA_DIST_MIN = 38 / 10"
definition CAMERA_DIST_MAX :: real where "CAMERA_DIST_MAX = 62 / 10"
definition MAX_WINDOWS :: int where "MAX_WINDOWS = 5"
definition WINDOW_SIZE_RANGE :: "real \<times> real" where "WINDOW_SIZE_RANGE = (50 / 100, 110 / 100)"
definition MIN_SKEW_DEG :: real where "MIN_SKEW_DEG = 6"
definition MAX_SKEW_DEG :: real where "MAX_SKEW_DEG = 15"
definition BOARD_HALF_EXTENTS :: "real \<times> real" where "BOARD_HALF_EXTENTS = (16 / 10, 12 / 10)"
definition NUM_OCCLUDERS_MIN :: int where "NUM_OCCLUDERS_MIN = 1"
definition NUM_OCCLUDERS_MAX :: int where "NUM_OCCLUDERS_MAX = 4"
definition OCCLUDER_SIZE_RANGE :: "real \<times> real" where "OCCLUDER_SIZE_RANGE = (12 / 100, 40 / 100)"
definition OCCLUDER_Z_OFFSET :: "real \<times> real" where "OCCLUDER_Z_OFFSET = (3 / 10, 2)"
definition NUM_RANDOM_LIGHTS :: nat where "NUM_RANDOM_LIGHTS = 4"
definition LIGHT_POS_RANGE_x :: "real \<times> real" where "LIGHT_POS_RANGE_x = (- 35 / 10, 35 / 10)"
definition LIGHT_POS_RANGE_y :: "real \<times> real" where "LIGHT_POS_RANGE_y = (- 35 / 10, 35 / 10)"
definition LIGHT_POS_RANGE_z :: "real \<times> real" where "LIGHT_POS_RANGE_z = (6 / 10, 38 / 10)"
definition LIGHT_ENERGY_RANGE :: "real \<times> real" where "LIGHT_ENERGY_RANGE = (500, 2200)"
definition LIGHT_SIZE_RANGE :: "real \<times> real" where "LIGHT_SIZE_RANGE = (18 / 100, 70 / 100)"

section \<open>Window placement with the in-FOV test\<close>

definition radians :: "real \<Rightarrow> real" where
  "radians a = a * (pi / 180)"

text \<open>The nested \<^verbatim>\<open>random_skew()\<close> of \<^verbatim>\<open>sample_window_pose_and_size\<close>.\<close>

definition random_skew :: "'g random_ops \<Rightarrow> 'g \<Rightarrow> vec3 \<times> 'g" where
  "random_skew ops g =
     (case uniform ops (- MAX_SKEW_DEG) MAX_SKEW_DEG g of (rx, g1) \<Rightarrow>
      case uniform ops (- MAX_SKEW_DEG) MAX_SKEW_DEG g1 of (ry, g2) \<Rightarrow>
      case uniform ops (- MAX_SKEW_DEG) MAX_SKEW_DEG g2 of (rz, g3) \<Rightarrow>
        if max \<bar>rx\<bar> (max \<bar>ry\<bar> \<bar>rz\<bar>) < MIN_SKEW_DEG then
          (case choice ops [0, 1, 2 :: int] g3 of (axis, g4) \<Rightarrow>
           case random ops g4 of (r, g5) \<Rightarrow>
             let val = MIN_SKEW_DEG * (if r > 1 / 2 then 1 else - 1)
             in if axis = 0 then ((val, ry, rz), g5)
                else if axis = 1 then ((rx, val, rz), g5)
                else ((rx, ry, val), g5))
        else ((rx, ry, rz), g3))"

definition sample_window_pose_and_size ::
  "'g random_ops \<Rightarrow> 'g \<Rightarrow> (real \<times> vec3 \<times> vec3) \<times> 'g" where
  "sample_window_pose_and_size ops g =
     (case uniform ops (fst WINDOW_SIZE_RANGE) (snd WINDOW_SIZE_RANGE) g of (size', g1) \<Rightarrow>
      case random_skew ops g1 of (rdeg, g2) \<Rightarrow>
      case uniform ops (- fst BOARD_HALF_EXTENTS) (fst BOARD_HALF_EXTENTS) g2 of (cx, g3) \<Rightarrow>
      case uniform ops (- snd BOARD_HALF_EXTENTS) (snd BOARD_HALF_EXTENTS) g3 of (cy, g4) \<Rightarrow>
        ((size', (cx, cy, 0), rdeg), g4))"

text \<open>
  The three assignments \<^verbatim>\<open>ensure_in_fov\<close> makes on the window for a candidate.
\<close>

definition apply_candidate :: "real \<times> vec3 \<times> vec3 \<Rightarrow> obj \<Rightarrow> obj" where
  "apply_candidate cand win_obj =
     (case cand of (size', loc, rdeg) \<Rightarrow>
        win_obj\<lparr>scale := (size' * (1 / 2), size' * (1 / 2), 1),
                location := loc,
                rotation_euler := (radians (vx rdeg), radians (vy rdeg), radians (vz rdeg))\<rparr>)"

text \<open>
  \<^verbatim>\<open>ensure_in_fov(cam, win_obj, max_tries)\<close> of the script without background:
  the loop \<^verbatim>\<open>for _ in range(max_tries)\<close> is a recursion on the tries left. It
  returns the flag and the centre, with the window as the loop left it and the next
  generator state.
\<close>

fun ensure_in_fov ::
  "'g random_ops \<Rightarrow> ('c \<Rightarrow> vec3 \<Rightarrow> vec3) \<Rightarrow> (obj \<Rightarrow> vec3 \<Rightarrow> vec3) \<Rightarrow> 'c \<Rightarrow> obj \<Rightarrow> nat \<Rightarrow> 'g
     \<Rightarrow> (bool \<times> real \<times> real) \<times> obj \<times> 'g" where
  "ensure_in_fov ops w2cv mw cam win_obj 0 g = ((False, (0, 0)), win_obj, g)"
| "ensure_in_fov ops w2cv mw cam win_obj (Suc k) g =
     (case sample_window_pose_and_size ops g of (cand, g') \<Rightarrow>
        let win_obj' = apply_candidate cand win_obj
        in if all_corners_in_frame w2cv cam (plane_world_corners mw win_obj')
           then ((True, (vx (fst (snd cand)), vy (fst (snd cand)))), win_obj', g')
           else ensure_in_fov ops w2cv mw cam win_obj' k g')"

text \<open>The same function in the script with background returns the flag alone.\<close>

fun ensure_in_fov_bg ::
  "'g random_ops \<Rightarrow> ('c \<Rightarrow> vec3 \<Rightarrow> vec3) \<Rightarrow> (obj \<Rightarrow> vec3 \<Rightarrow> vec3) \<Rightarrow> 'c \<Rightarrow> obj \<Rightarrow> nat \<Rightarrow> 'g
     \<Rightarrow> bool \<times> obj \<times> 'g" where
  "ensure_in_fov_bg ops w2cv mw cam win_obj 0 g = (False, win_obj, g)"
| "ensure_in_fov_bg ops w2cv mw cam win_obj (Suc k) g =
     (case sample_window_pose_and_size ops g of (cand, g') \<Rightarrow>
        let win_obj' = apply_candidate cand win_obj
        in if all_corners_in_frame w2cv cam (plane_world_corners mw win_obj')
           then (True, win_obj', g')
           else ensure_in_fov_bg ops w2cv mw cam win_obj' k g')"

text \<open>
  A concrete random source and engine for evaluating the functions: every draw is the
  midpoint of its range (index \<open>0\<close>, lower bound), the world matrix translates and
  scales without rotating, and the camera looks down the \<open>z\<close> axis from height \<open>5\<close>.
\<close>

definition mid_ops :: "nat random_ops" where
  "mid_ops = \<lparr>uniform = (\<lambda>a b g. ((a + b) / 2, g + 1)),
              random = (\<lambda>g. (1 / 2, g + 1)),
              randbelow = (\<lambda>n g. (0, g + 1)),
              randint = (\<lambda>a b g. (a, g + 1))\<rparr>"

definition flat_mw :: "obj \<Rightarrow> vec3 \<Rightarrow> vec3" where
  "flat_mw ob v = (vx (location ob) + vx (scale ob) * vx v,
                   vy (location ob) + vy (scale ob) * vy v,
                   vz (location ob) + vz (scale ob) * vz v)"

definition top_w2cv :: "real \<Rightarrow> vec3 \<Rightarrow> vec3" where
  "top_w2cv d p = (1 / 2 + vx p / 4, 1 / 2 + vy p / 4, d - vz p)"

definition unit_quad :: "vec3 list" where
  "unit_quad = [(- 1, - 1, 0), (1, - 1, 0), (- 1, 1, 0), (1, 1, 0)]"

definition new_window :: "nat \<Rightarrow> obj" where
  "new_window k = \<lparr>name = (''Window_'', k, []), otype = MESH, scale = (1, 1, 1),
                   location = (0, 0, 0), rotation_euler = (0, 0, 0),
                   hide_render = False, hide_viewport = False,
                   materials = [Window_RGB_EmitTransp], vertices = unit_quad\<rparr>"

section \<open>The single-camera scene\<close>

text \<open>
  The camera, a random light and the part of the scene the render loop reads and writes.
  Output file names such as \<^verbatim>\<open>f"img_{f:04d}.png"\<close> are kept as their kind and
  frame number.
\<close>

record camera =
  cam_location :: vec3
  cam_rotation_euler :: vec3
  lens :: real

datatype light_type = POINT | AREA

record light_ob =
  light_index :: nat
  ltype :: light_type
  light_location :: vec3
  energy :: real
  light_size :: "real option"
  color :: vec3

datatype color_mode = RGB | RGBA | BW

datatype out_file = Img nat | Mask nat | Kpt nat

record scene =
  cam_obj :: camera
  coll_lights :: "light_ob list"
  coll_board :: "obj list"
  coll_occluder :: "obj list"
  film_transparent :: bool
  color_mode :: color_mode
  use_compositing :: bool
  compositor_bg :: "string option"
  world_color :: "(real \<times> real \<times> real \<times> real) option"
  filepath :: "out_file option"

text \<open>
  What the scripts take from the engine besides the projection and the world matrix: the
  board's normal and centre (the board never moves), the Euler angles of
  \<^verbatim>\<open>forward.to_track_quat('-Z', 'Y')\<close>, and the vertices of a new grid and cube.
\<close>

record engine =
  world_to_camera_view :: "camera \<Rightarrow> vec3 \<Rightarrow> vec3"
  matrix_world :: "obj \<Rightarrow> vec3 \<Rightarrow> vec3"
  board_normal_world :: vec3
  board_translation :: vec3
  track_euler :: "vec3 \<Rightarrow> vec3"
  grid_vertices :: "vec3 list"
  cube_vertices :: "vec3 list"

definition vadd :: "vec3 \<Rightarrow> vec3 \<Rightarrow> vec3" where
  "vadd a b = (vx a + vx b, vy a + vy b, vz a + vz b)"

definition vsub :: "vec3 \<Rightarrow> vec3 \<Rightarrow> vec3" where
  "vsub a b = (vx a - vx b, vy a - vy b, vz a - vz b)"

definition vscale :: "vec3 \<Rightarrow> real \<Rightarrow> vec3" where
  "vscale a k = (vx a * k, vy a * k, vz a * k)"

definition normalized :: "vec3 \<Rightarrow> vec3" where
  "normalized a =
     (let l = sqrt ((vx a)\<^sup>2 + (vy a)\<^sup>2 + (vz a)\<^sup>2)
      in if l = 0 then (0, 0, 0) else (vx a / l, vy a / l, vz a / l))"

definition place_camera_perpendicular :: "engine \<Rightarrow> camera \<Rightarrow> real \<Rightarrow> camera" where
  "place_camera_perpendicular eng cam d =
     (let target = board_translation eng;
          n = board_normal_world eng;
          cam1 = cam\<lparr>cam_location := vadd target (vscale n d)\<rparr>;
          forward = normalized (vsub target (cam_location cam1))
      in cam1\<lparr>cam_rotation_euler := track_euler eng forward\<rparr>)"

text \<open>
  \<^verbatim>\<open>spawn_random_lights(n)\<close>: the old lights are removed, then the loop
  \<^verbatim>\<open>for i in range(n)\<close> runs from index \<open>i\<close> with \<open>k\<close> lights to go.
\<close>

fun spawn_lights_from :: "'g random_ops \<Rightarrow> nat \<Rightarrow> nat \<Rightarrow> 'g \<Rightarrow> light_ob list \<times> 'g" where
  "spawn_lights_from ops i 0 g = ([], g)"
| "spawn_lights_from ops i (Suc k) g =
     (let t = choice ops [POINT, AREA] g;
          x = uniform ops (fst LIGHT_POS_RANGE_x) (snd LIGHT_POS_RANGE_x) (snd t);
          y = uniform ops (fst LIGHT_POS_RANGE_y) (snd LIGHT_POS_RANGE_y) (snd x);
          z = uniform ops (fst LIGHT_POS_RANGE_z) (snd LIGHT_POS_RANGE_z) (snd y);
          e = uniform ops (fst LIGHT_ENERGY_RANGE) (snd LIGHT_ENERGY_RANGE) (snd z);
          sz = (if fst t = AREA
                then (let u = uniform ops (fst LIGHT_SIZE_RANGE) (snd LIGHT_SIZE_RANGE) (snd e)
                      in (Some (fst u), snd u))
                else (None, snd e));
          cr = uniform ops (85 / 100) 1 (snd sz);
          cg = uniform ops (85 / 100) 1 (snd cr);
          cb = uniform ops (85 / 100) 1 (snd cg);
          lobj = \<lparr>light_index = i, ltype = fst t, light_location = (fst x, fst y, fst z),
                  energy = fst e, light_size = fst sz, color = (fst cr, fst cg, fst cb)\<rparr>;
          more = spawn_lights_from ops (i + 1) k (snd cb)
      in (lobj # fst more, snd more))"

definition spawn_random_lights :: "'g random_ops \<Rightarrow> nat \<Rightarrow> scene \<Rightarrow> 'g \<Rightarrow> scene \<times> 'g" where
  "spawn_random_lights ops n s g =
     (let made = spawn_lights_from ops 0 n g
      in (s\<lparr>coll_lights := fst made\<rparr>, snd made))"

text \<open>
  \<^verbatim>\<open>create_window_plane(size, name)\<close> and \<^verbatim>\<open>get_or_make_windows(n_needed)\<close>,
  whose \<^verbatim>\<open>while len(existing) < n_needed\<close> loop adds windows to the pool; every
  window of the pool is then hidden.
\<close>

definition create_window_plane :: "engine \<Rightarrow> real \<Rightarrow> obj_name \<Rightarrow> obj" where
  "create_window_plane eng size' nm =
     \<lparr>name = nm, otype = MESH, scale = (size' * (1 / 2), size' * (1 / 2), 1),
      location = (0, 0, 0), rotation_euler = (0, 0, 0),
      hide_render = False, hide_viewport = False, materials = [],
      vertices = grid_vertices eng\<rparr>"

function make_windows :: "'g random_ops \<Rightarrow> engine \<Rightarrow> int \<Rightarrow> obj list \<Rightarrow> 'g \<Rightarrow> obj list \<times> 'g" where
  "make_windows ops eng n_needed existing g =
     (if int (length existing) < n_needed then
        (let sz = uniform ops (fst WINDOW_SIZE_RANGE) (snd WINDOW_SIZE_RANGE) g;
             ob = create_window_plane eng (fst sz) (''Window_'', length existing + 1, []);
             ob = ob\<lparr>materials := [Window_RGB_EmitTransp]\<rparr>
         in make_windows ops eng n_needed (existing @ [ob]) (snd sz))
      else (existing, g))"
  by pat_completeness auto
termination
  by (relation "measure (\<lambda>(ops, eng, n_needed, existing, g). nat (n_needed - int (length existing)))")
    auto

declare make_windows.simps [simp del]

definition get_or_make_windows ::
  "'g random_ops \<Rightarrow> engine \<Rightarrow> int \<Rightarrow> obj list \<Rightarrow> 'g \<Rightarrow> obj list \<times> 'g" where
  "get_or_make_windows ops eng n_needed board_windows g =
     (let made = make_windows ops eng n_needed board_windows g
      in (map (\<lambda>ob. ob\<lparr>hide_render := True, hide_viewport := True\<rparr>) (fst made), snd made))"

text \<open>
  The body of the render loop's \<^verbatim>\<open>for w in windows[:n_windows]\<close>: the window is
  shown, \<open>ensure_in_fov\<close> runs with \<open>140\<close> tries, and on failure the window gets the
  fallback pose; it joins \<^verbatim>\<open>visible_windows\<close> either way.
\<close>

definition fallback_pose :: "obj \<Rightarrow> obj" where
  "fallback_pose w = w\<lparr>scale := (35 / 100, 35 / 100, 1), location := (0, 0, 0),
                        rotation_euler := (0, 0, 0)\<rparr>"

definition place_window :: "'g random_ops \<Rightarrow> engine \<Rightarrow> camera \<Rightarrow> obj \<Rightarrow> 'g \<Rightarrow> obj \<times> 'g" where
  "place_window ops eng cam w g =
     (let w1 = w\<lparr>hide_render := False, hide_viewport := False\<rparr>;
          res = ensure_in_fov ops (world_to_camera_view eng) (matrix_world eng) cam w1 140 g;
          ok = fst (fst res);
          w2 = fst (snd res)
      in (if \<not> ok then fallback_pose w2 else w2, snd (snd res)))"

definition place_window_bg :: "'g random_ops \<Rightarrow> engine \<Rightarrow> camera \<Rightarrow> obj \<Rightarrow> 'g \<Rightarrow> obj \<times> 'g" where
  "place_window_bg ops eng cam w g =
     (let w1 = w\<lparr>hide_render := False, hide_viewport := False\<rparr>;
          res = ensure_in_fov_bg ops (world_to_camera_view eng) (matrix_world eng) cam w1 140 g;
          ok = fst res;
          w2 = fst (snd res)
      in (if \<not> ok then fallback_pose w2 else w2, snd (snd res)))"

fun place_each ::
  "(obj \<Rightarrow> 'g \<Rightarrow> obj \<times> 'g) \<Rightarrow> obj list \<Rightarrow> 'g \<Rightarrow> obj list \<times> 'g" where
  "place_each place [] g = ([], g)"
| "place_each place (w # ws) g =
     (let placed = place w g; more = place_each place ws (snd placed)
      in (fst placed # fst more, snd more))"

text \<open>
  The length of the Python slice \<^verbatim>\<open>windows[:n]\<close>: a negative \<open>n\<close> counts from the
  end.
\<close>

definition slice_len :: "int \<Rightarrow> 'a list \<Rightarrow> nat" where
  "slice_len n xs = (if 0 \<le> n then min (nat n) (length xs) else length xs - nat (- n))"

text \<open>
  \<^verbatim>\<open>clear_occluders()\<close> and \<^verbatim>\<open>spawn_occluders_random(board, n_min, n_max)\<close>.
\<close>

fun spawn_occluders_from :: "'g random_ops \<Rightarrow> engine \<Rightarrow> nat \<Rightarrow> nat \<Rightarrow> 'g \<Rightarrow> obj list \<times> 'g" where
  "spawn_occluders_from ops eng i 0 g = ([], g)"
| "spawn_occluders_from ops eng i (Suc k) g =
     (let sc = uniform ops (fst OCCLUDER_SIZE_RANGE) (snd OCCLUDER_SIZE_RANGE) g;
          depth = uniform ops (fst OCCLUDER_Z_OFFSET) (snd OCCLUDER_Z_OFFSET) (snd sc);
          base_pos = vsub (board_translation eng) (vscale (board_normal_world eng) (fst depth));
          px = uniform ops (- fst BOARD_HALF_EXTENTS) (fst BOARD_HALF_EXTENTS) (snd depth);
          py = uniform ops (- snd BOARD_HALF_EXTENTS) (snd BOARD_HALF_EXTENTS) (snd px);
          ob = \<lparr>name = (''Occ_'', i, []), otype = MESH, scale = (fst sc, fst sc, fst sc),
                location = (fst px, fst py, vz base_pos), rotation_euler = (0, 0, 0),
                hide_render = False, hide_viewport = False, materials = [],
                vertices = cube_vertices eng\<rparr>;
          more = spawn_occluders_from ops eng (i + 1) k (snd py)
      in (ob # fst more, snd more))"

definition spawn_occluders_random ::
  "'g random_ops \<Rightarrow> engine \<Rightarrow> int \<Rightarrow> int \<Rightarrow> obj list \<Rightarrow> 'g \<Rightarrow> obj list \<times> 'g" where
  "spawn_occluders_random ops eng n_min n_max occluders g =
     (let count = randint ops n_min n_max g;
          made = spawn_occluders_from ops eng 0 (nat (fst count)) (snd count)
      in (occluders @ fst made, snd made))"

section \<open>The passes and the render loop of the single-camera scripts\<close>

text \<open>
  \<^verbatim>\<open>for w in visible_windows: w.data.materials.clear(); w.data.materials.append(m)\<close>.
  The list \<^verbatim>\<open>visible_windows\<close> holds the first \<open>k\<close> windows of the pool.
\<close>

definition set_window_material :: "material \<Rightarrow> nat \<Rightarrow> obj list \<Rightarrow> obj list" where
  "set_window_material m k ws = map (\<lambda>w. w\<lparr>materials := [m]\<rparr>) (take k ws) @ drop k ws"

definition rgb_pass :: "nat \<Rightarrow> nat \<Rightarrow> scene \<Rightarrow> scene" where
  "rgb_pass k f s =
     s\<lparr>film_transparent := True, color_mode := RGBA,
       coll_board := set_window_material Window_RGB_EmitTransp k (coll_board s),
       filepath := Some (Img f)\<rparr>"

definition mask_pass :: "nat \<Rightarrow> nat \<Rightarrow> scene \<Rightarrow> scene" where
  "mask_pass k f s =
     s\<lparr>film_transparent := True, color_mode := BW,
       world_color := Some (0, 0, 0, 1),
       coll_board := set_window_material Window_MASK_Union k (coll_board s),
       coll_occluder := map (\<lambda>ob. if otype ob = MESH then ob\<lparr>materials := [Black_Emission]\<rparr>
                                   else ob) (coll_occluder s),
       filepath := Some (Mask f)\<rparr>"

text \<open>
  The passes of the script with background: the RGB pass turns compositing on and, when
  background files were found, draws one with \<^verbatim>\<open>random.choice\<close>; the mask pass
  turns compositing off.
\<close>

definition rgb_pass_bg ::
  "'g random_ops \<Rightarrow> string list \<Rightarrow> nat \<Rightarrow> nat \<Rightarrow> scene \<Rightarrow> 'g \<Rightarrow> scene \<times> 'g" where
  "rgb_pass_bg ops bg_files k f s g =
     (let s1 = s\<lparr>film_transparent := True, color_mode := RGBA, use_compositing := True\<rparr>;
          picked = (if bg_files \<noteq> []
                    then (let c = choice ops bg_files g
                          in (s1\<lparr>compositor_bg := Some (fst c)\<rparr>, snd c))
                    else (s1, g));
          s2 = fst picked
      in (s2\<lparr>coll_board := set_window_material Window_RGB_EmitTransp k (coll_board s2),
              filepath := Some (Img f)\<rparr>, snd picked))"

definition mask_pass_bg :: "nat \<Rightarrow> nat \<Rightarrow> scene \<Rightarrow> scene" where
  "mask_pass_bg k f s = mask_pass k f (s\<lparr>use_compositing := False\<rparr>)"

text \<open>The keypoint record of a window and the payload of a frame.\<close>

record kpt_record =
  object_name :: obj_name
  keypoints :: "pixel list"

record kpt_payload =
  frame :: nat
  image_file :: out_file
  mask_file :: out_file
  resolution :: "int \<times> int"
  objects :: "kpt_record list"

definition keypoint_record :: "engine \<Rightarrow> camera \<Rightarrow> obj \<Rightarrow> py_error + kpt_record" where
  "keypoint_record eng cam w =
     (let corners_world = plane_world_corners (matrix_world eng) w;
          pxpts = project_to_pixels (world_to_camera_view eng) cam corners_world
                    (fst IMG_RES) (snd IMG_RES)
      in case order_tl_tr_br_bl pxpts of
           Inl e \<Rightarrow> Inl e
         | Inr pxpts' \<Rightarrow> Inr \<lparr>object_name = name w, keypoints = pxpts'\<rparr>)"

fun keypoint_records :: "engine \<Rightarrow> camera \<Rightarrow> obj list \<Rightarrow> py_error + kpt_record list" where
  "keypoint_records eng cam [] = Inr []"
| "keypoint_records eng cam (w # ws) =
     (case keypoint_record eng cam w of
        Inl e \<Rightarrow> Inl e
      | Inr r \<Rightarrow> (case keypoint_records eng cam ws of
                    Inl e \<Rightarrow> Inl e
                  | Inr rs \<Rightarrow> Inr (r # rs)))"

text \<open>
  A file the loop writes: an image the renderer produced for the scene as it stood, or a
  keypoint payload. The renderer is a parameter \<open>render\<close>; it reads the scene and
  changes nothing in it.
\<close>

datatype 'img written = Image out_file 'img | Json out_file kpt_payload

text \<open>
  The first part of the loop body, up to \<^verbatim>\<open>spawn_occluders_random(board)\<close>: the
  frame's randomization. It returns the scene, the number of visible windows and the
  next generator state.
\<close>

definition randomize_frame ::
  "'g random_ops \<Rightarrow> engine \<Rightarrow> int \<Rightarrow> int \<Rightarrow> scene \<Rightarrow> 'g \<Rightarrow> scene \<times> nat \<times> 'g" where
  "randomize_frame ops eng occ_min occ_max s g =
     (let d = uniform ops CAMERA_DIST_MIN CAMERA_DIST_MAX g;
          s1 = s\<lparr>cam_obj := place_camera_perpendicular eng (cam_obj s) (fst d)\<rparr>;
          lit = spawn_random_lights ops NUM_RANDOM_LIGHTS s1 (snd d);
          n_windows = randint ops 1 MAX_WINDOWS (snd lit);
          windows = get_or_make_windows ops eng (fst n_windows) (coll_board (fst lit))
                      (snd n_windows);
          k = slice_len (fst n_windows) (fst windows);
          placed = place_each (place_window ops eng (cam_obj s1)) (take k (fst windows))
                     (snd windows);
          s2 = (fst lit)\<lparr>coll_board := fst placed @ drop k (fst windows)\<rparr>;
          occ = spawn_occluders_random ops eng occ_min occ_max [] (snd placed)
      in (s2\<lparr>coll_occluder := fst occ\<rparr>, k, snd occ))"

text \<open>
  The rest of the loop body of the script without background: RGB pass and render, mask
  pass and render, keypoints. An error of \<open>order_tl_tr_br_bl\<close> ends the run after the
  two images were written.
\<close>

definition capture_frame ::
  "engine \<Rightarrow> (scene \<Rightarrow> 'img) \<Rightarrow> nat \<Rightarrow> nat \<Rightarrow> scene
     \<Rightarrow> scene \<times> 'img written list \<times> py_error option" where
  "capture_frame eng render k f s =
     (let s1 = rgb_pass k f s;
          img = render s1;
          s2 = mask_pass k f s1;
          msk = render s2;
          written = [Image (Img f) img, Image (Mask f) msk]
      in case keypoint_records eng (cam_obj s2) (take k (coll_board s2)) of
           Inl e \<Rightarrow> (s2, written, Some e)
         | Inr kpt_records \<Rightarrow>
             (s2, written @ [Json (Kpt f)
                    \<lparr>frame = f, image_file = Img f, mask_file = Mask f,
                      resolution = IMG_RES, objects = kpt_records\<rparr>], None))"

definition render_frame ::
  "'g random_ops \<Rightarrow> engine \<Rightarrow> (scene \<Rightarrow> 'img) \<Rightarrow> nat \<Rightarrow> scene \<Rightarrow> 'g
     \<Rightarrow> (scene \<times> 'g) \<times> 'img written list \<times> py_error option" where
  "render_frame ops eng render f s g =
     (let r = randomize_frame ops eng NUM_OCCLUDERS_MIN NUM_OCCLUDERS_MAX s g;
          c = capture_frame eng render (fst (snd r)) f (fst r)
      in ((fst c, snd (snd r)), snd c))"

text \<open>
  The loop \<^verbatim>\<open>for f in range(1, NUM_IMAGES+1)\<close> over the frame numbers still to do.
\<close>

fun render_loop ::
  "'g random_ops \<Rightarrow> engine \<Rightarrow> (scene \<Rightarrow> 'img) \<Rightarrow> nat list \<Rightarrow> scene \<Rightarrow> 'g
     \<Rightarrow> (scene \<times> 'g) \<times> 'img written list \<times> py_error option" where
  "render_loop ops eng render [] s g = ((s, g), [], None)"
| "render_loop ops eng render (f # fs) s g =
     (let r = render_frame ops eng render f s g
      in case snd (snd r) of
           Some e \<Rightarrow> r
         | None \<Rightarrow>
             (let rest = render_loop ops eng render fs (fst (fst r)) (snd (fst r))
              in (fst rest, fst (snd r) @ fst (snd rest), snd (snd rest))))"

definition NUM_IMAGES :: nat where "NUM_IMAGES = 2000"

definition generate ::
  "'g random_ops \<Rightarrow> engine \<Rightarrow> (scene \<Rightarrow> 'img) \<Rightarrow> scene \<Rightarrow> 'g
     \<Rightarrow> (scene \<times> 'g) \<times> 'img written list \<times> py_error option" where
  "generate ops eng render s g = render_loop ops eng render [1 ..< NUM_IMAGES + 1] s g"

text \<open>The keypoint payloads among the files written, in the order written.\<close>

fun keypoint_files :: "'img written list \<Rightarrow> (out_file \<times> kpt_payload) list" where
  "keypoint_files [] = []"
| "keypoint_files (Image n i # ws) = keypoint_files ws"
| "keypoint_files (Json n p # ws) = (n, p) # keypoint_files ws"

text \<open>A concrete engine for evaluating the loop.\<close>

definition demo_engine :: engine where
  "demo_engine = \<lparr>world_to_camera_view = (\<lambda>cam p. top_w2cv (vz (cam_location cam)) p),
                  matrix_world = flat_mw,
                  board_normal_world = (0, 0, 1), board_translation = (0, 0, 0),
                  track_euler = (\<lambda>v. (0, 0, 0)),
                  grid_vertices = unit_quad,
                  cube_vertices = [(- 1 / 2, - 1 / 2, - 1 / 2), (1 / 2, 1 / 2, 1 / 2)]\<rparr>"

definition empty_scene :: scene where
  "empty_scene = \<lparr>cam_obj = \<lparr>cam_location = (0, 0, 0), cam_rotation_euler = (0, 0, 0), lens = 45\<rparr>,
                  coll_lights = [], coll_board = [], coll_occluder = [],
                  film_transparent = False, color_mode = RGBA, use_compositing = False,
                  compositor_bg = None, world_color = None, filepath = None\<rparr>"

section \<open>The multi-camera script: non-overlapping centres and window pairs\<close>

definition MAX_WINDOWS_multi :: int where "MAX_WINDOWS_multi = 4"
definition N_CAMERAS :: nat where "N_CAMERAS = 3"

text \<open>
  The 2D distance test of \<^verbatim>\<open>sample_nonoverlap\<close>,
  \<^verbatim>\<open>((c[0]-x)**2 + (c[1]-y)**2)**0.5 >= d\<close>; the power \<open>0.5\<close> of a non-negative
  number is its square root.
\<close>

definition far_enough :: "real \<Rightarrow> real \<times> real \<Rightarrow> real \<times> real \<Rightarrow> bool" where
  "far_enough d c p \<longleftrightarrow> d \<le> sqrt ((fst c - fst p)\<^sup>2 + (snd c - snd p)\<^sup>2)"

text \<open>
  The \<^verbatim>\<open>while len(pts) < n and tries < 250\<close> loop of
  \<^verbatim>\<open>sample_nonoverlap(n, d)\<close>, on its variables \<open>pts\<close> and \<open>tries\<close>.
\<close>

function sample_nonoverlap_loop ::
  "'g random_ops \<Rightarrow> int \<Rightarrow> real \<Rightarrow> (real \<times> real) list \<Rightarrow> nat \<Rightarrow> 'g \<Rightarrow> (real \<times> real) list \<times> 'g"
  where
  "sample_nonoverlap_loop ops n d pts tries g =
     (if int (length pts) < n \<and> tries < 250 then
        (let cx = uniform ops (- (9 / 10)) (9 / 10) g;
             cy = uniform ops (- (6 / 10)) (6 / 10) (snd cx);
             c = (fst cx, fst cy)
         in if list_all (far_enough d c) pts
            then sample_nonoverlap_loop ops n d (pts @ [c]) (tries + 1) (snd cy)
            else sample_nonoverlap_loop ops n d pts (tries + 1) (snd cy))
      else (pts, g))"
  by pat_completeness auto
termination
  by (relation "measure (\<lambda>(ops, n, d, pts, tries, g). 250 - tries)") auto

declare sample_nonoverlap_loop.simps [simp del]

text \<open>The default \<^verbatim>\<open>d=0.38\<close> of the parameter \<open>d\<close> of \<^verbatim>\<open>sample_nonoverlap\<close>.\<close>

definition d_default :: real where "d_default = 38 / 100"

definition sample_nonoverlap ::
  "'g random_ops \<Rightarrow> int \<Rightarrow> real \<Rightarrow> 'g \<Rightarrow> (real \<times> real) list \<times> 'g" where
  "sample_nonoverlap ops n d g = sample_nonoverlap_loop ops n d [] 0 g"

text \<open>
  \<^verbatim>\<open>place_windows(n)\<close>: the loop over \<^verbatim>\<open>enumerate(pairs)\<close>, one pair of an
  RGB window and its mask twin at a time, then \<^verbatim>\<open>sync_twins()\<close>.
\<close>

fun place_pairs ::
  "'g random_ops \<Rightarrow> (real \<times> real) list \<Rightarrow> nat \<Rightarrow> (obj \<times> obj) list \<Rightarrow> 'g
     \<Rightarrow> (obj \<times> obj) list \<times> 'g" where
  "place_pairs ops centers idx [] g = ([], g)"
| "place_pairs ops centers idx ((r, m) # rest) g =
     (let vis = idx < length centers;
          r1 = r\<lparr>hide_viewport := \<not> vis, hide_render := \<not> vis\<rparr>;
          m1 = m\<lparr>hide_viewport := \<not> vis, hide_render := \<not> vis\<rparr>
      in if vis then
           (let rx = uniform ops (- 25) 25 g;
                ry = uniform ops (- 25) 25 (snd rx);
                rz = uniform ops 0 360 (snd ry);
                s = uniform ops (7 / 10) (125 / 100) (snd rz);
                z = uniform ops (- (2 / 100)) (2 / 100) (snd s);
                r2 = r1\<lparr>rotation_euler := (radians (fst rx), radians (fst ry), radians (fst rz)),
                         scale := (fst s, fst s, fst s),
                         location := (fst (centers ! idx), snd (centers ! idx), fst z)\<rparr>;
                done = place_pairs ops centers (idx + 1) rest (snd z)
            in ((r2, m1) # fst done, snd done))
         else
           (let done = place_pairs ops centers (idx + 1) rest g
            in ((r1, m1) # fst done, snd done)))"

definition sync_twins :: "(obj \<times> obj) list \<Rightarrow> (obj \<times> obj) list" where
  "sync_twins pairs =
     map (\<lambda>(r, m). (r, m\<lparr>location := location r, rotation_euler := rotation_euler r,
                           scale := scale r\<rparr>)) pairs"

definition place_windows ::
  "'g random_ops \<Rightarrow> int \<Rightarrow> (obj \<times> obj) list \<Rightarrow> 'g \<Rightarrow> (obj \<times> obj) list \<times> 'g" where
  "place_windows ops n pairs g =
     (let centers = sample_nonoverlap ops n d_default g;
          placed = place_pairs ops (fst centers) 0 pairs (snd centers)
      in (sync_twins (fst placed), snd placed))"

text \<open>The window pairs a frame shows: those whose RGB window is rendered.\<close>

definition visible_pairs :: "(obj \<times> obj) list \<Rightarrow> (obj \<times> obj) list" where
  "visible_pairs pairs = filter (\<lambda>(r, m). \<not> hide_render r) pairs"

definition new_pair :: "nat \<Rightarrow> obj \<times> obj" where
  "new_pair k =
     (\<lparr>name = (''window_'', k, ''_RGB''), otype = MESH, scale = (1, 1, 1), location = (0, 0, 0),
       rotation_euler = (0, 0, 0), hide_render = False, hide_viewport = False,
       materials = [Window_RGB_Mat], vertices = unit_quad\<rparr>,
      \<lparr>name = (''window_'', k, ''_MSK''), otype = MESH, scale = (1, 1, 1), location = (0, 0, 0),
       rotation_euler = (0, 0, 0), hide_render = False, hide_viewport = False,
       materials = [Window_MASK_Mat], vertices = unit_quad\<rparr>)"

section \<open>The multi-camera script: passes by collection\<close>

text \<open>
  The scene of the multi-camera script: the \<^verbatim>\<open>exclude\<close> flag of its five layer
  collections, the window pairs, the occluders, the backdrop, the cameras and the render
  settings the loop writes.
\<close>

datatype mc_file = Mc_img nat nat | Mc_mask nat nat | Mc_json nat nat

record mc_scene =
  lc_backdrop_exclude :: bool
  lc_occluders_exclude :: bool
  lc_windows_rgb_exclude :: bool
  lc_windows_msk_exclude :: bool
  lc_misc_exclude :: bool
  mc_pairs :: "(obj \<times> obj) list"
  mc_occluders :: "obj list"
  mc_backdrop :: obj
  mc_cams :: "camera list"
  scene_camera :: "camera option"
  mc_color_mode :: color_mode
  mc_filepath :: "mc_file option"

definition set_excludes_for_rgb :: "mc_scene \<Rightarrow> mc_scene" where
  "set_excludes_for_rgb s =
     s\<lparr>lc_backdrop_exclude := False, lc_occluders_exclude := False,
       lc_windows_rgb_exclude := False, lc_windows_msk_exclude := True,
       lc_misc_exclude := False\<rparr>"

definition set_excludes_for_mask :: "mc_scene \<Rightarrow> mc_scene" where
  "set_excludes_for_mask s =
     s\<lparr>lc_backdrop_exclude := False, lc_occluders_exclude := True,
       lc_windows_rgb_exclude := True, lc_windows_msk_exclude := False,
       lc_misc_exclude := True\<rparr>"

text \<open>
  The keypoints of the multi-camera script: the loop \<^verbatim>\<open>for r, _m in pairs\<close> skips
  a pair whose RGB window is hidden.
\<close>

fun keypoint_records_multi ::
  "engine \<Rightarrow> camera \<Rightarrow> (obj \<times> obj) list \<Rightarrow> py_error + kpt_record list" where
  "keypoint_records_multi eng cam [] = Inr []"
| "keypoint_records_multi eng cam ((r, m) # rest) =
     (if hide_render r then keypoint_records_multi eng cam rest
      else
        (let px = project_pixels (world_to_camera_view eng) cam
                    (plane_world_corners (matrix_world eng) r) (fst IMG_RES) (snd IMG_RES)
         in case order_tl_tr_br_bl px of
              Inl e \<Rightarrow> Inl e
            | Inr px' \<Rightarrow>
                (case keypoint_records_multi eng cam rest of
                   Inl e \<Rightarrow> Inl e
                 | Inr rs \<Rightarrow> Inr (\<lparr>object_name = name r, keypoints = px'\<rparr> # rs))))"

record mc_payload =
  mc_image :: mc_file
  mc_mask :: mc_file
  mc_resolution :: "int \<times> int"
  mc_camera :: nat
  mc_objects :: "kpt_record list"

datatype 'img mc_written = Mc_image mc_file 'img | Mc_payload mc_file mc_payload

text \<open>
  The body of \<^verbatim>\<open>for ci, cam in enumerate(cams, start=1)\<close> for frame \<open>f\<close>, and the
  loop over the cameras still to do.
\<close>

definition camera_pass ::
  "engine \<Rightarrow> (mc_scene \<Rightarrow> 'img) \<Rightarrow> nat \<Rightarrow> nat \<Rightarrow> camera \<Rightarrow> mc_scene
     \<Rightarrow> mc_scene \<times> 'img mc_written list \<times> py_error option" where
  "camera_pass eng render f ci cam s =
     (let s1 = s\<lparr>scene_camera := Some cam\<rparr>;
          s2 = (set_excludes_for_rgb (s1\<lparr>mc_color_mode := RGB\<rparr>))\<lparr>mc_filepath := Some (Mc_img ci f)\<rparr>;
          img = render s2;
          s3 = (set_excludes_for_mask (s2\<lparr>mc_color_mode := BW\<rparr>))\<lparr>mc_filepath := Some (Mc_mask ci f)\<rparr>;
          msk = render s3;
          written = [Mc_image (Mc_img ci f) img, Mc_image (Mc_mask ci f) msk]
      in case keypoint_records_multi eng cam (mc_pairs s3) of
           Inl e \<Rightarrow> (s3, written, Some e)
         | Inr rec \<Rightarrow>
             (s3, written @ [Mc_payload (Mc_json ci f)
                    \<lparr>mc_image = Mc_img ci f, mc_mask = Mc_mask ci f, mc_resolution = IMG_RES,
                      mc_camera = ci, mc_objects = rec\<rparr>], None))"

fun camera_loop ::
  "engine \<Rightarrow> (mc_scene \<Rightarrow> 'img) \<Rightarrow> nat \<Rightarrow> nat \<Rightarrow> camera list \<Rightarrow> mc_scene
     \<Rightarrow> mc_scene \<times> 'img mc_written list \<times> py_error option" where
  "camera_loop eng render f ci [] s = (s, [], None)"
| "camera_loop eng render f ci (cam # rest) s =
     (let r = camera_pass eng render f ci cam s
      in case snd (snd r) of
           Some e \<Rightarrow> r
         | None \<Rightarrow>
             (let more = camera_loop eng render f (ci + 1) rest (fst r)
              in (fst more, fst (snd r) @ fst (snd more), snd (snd more))))"

text \<open>A concrete multi-camera scene: one visible pair, one hidden pair, one occluder.\<close>

definition demo_occluder :: obj where
  "demo_occluder = \<lparr>name = (''occ_'', 7, []), otype = MESH, scale = (1 / 10, 1 / 10, 1 / 10),
                    location = (0, 0, 1 / 2), rotation_euler = (0, 0, 0),
                    hide_render = False, hide_viewport = False,
                    materials = [Occ_Mat (1 / 2) (1 / 2) (1 / 2)],
                    vertices = [(- 1 / 2, - 1 / 2, - 1 / 2), (1 / 2, 1 / 2, 1 / 2)]\<rparr>"

definition demo_camera :: camera where
  "demo_camera = \<lparr>cam_location = (0, 0, 5), cam_rotation_euler = (0, 0, 0), lens = 45\<rparr>"

definition demo_mc_scene :: mc_scene where
  "demo_mc_scene =
     \<lparr>lc_backdrop_exclude = False, lc_occluders_exclude = False,
      lc_windows_rgb_exclude = False, lc_windows_msk_exclude = False, lc_misc_exclude = False,
      mc_pairs = [new_pair 1,
               (fst (new_pair 2)\<lparr>hide_render := True\<rparr>, snd (new_pair 2)\<lparr>hide_render := True\<rparr>)],
      mc_occluders = [demo_occluder],
      mc_backdrop = \<lparr>name = (''Backdrop'', 0, []), otype = MESH, scale = (1, 1, 1),
                  location = (0, 0, - 1), rotation_euler = (0, 0, 0),
                  hide_render = False, hide_viewport = False,
                  materials = [BG_Mat 5], vertices = unit_quad\<rparr>,
      mc_cams = [demo_camera], scene_camera = None, mc_color_mode = RGB, mc_filepath = None\<rparr>"

text \<open>
  The specification's non-overlap guarantee: every two distinct positions of the list
  hold centres at distance at least \<open>d\<close>.
\<close>

definition pairwise_apart :: "real \<Rightarrow> (real \<times> real) list \<Rightarrow> bool" where
  "pairwise_apart d pts \<longleftrightarrow>
     (\<forall>i < length pts. \<forall>j < length pts. i \<noteq> j \<longrightarrow> far_enough d (pts ! i) (pts ! j))"

text \<open>
  A second concrete random source: \<open>uniform\<close> returns the lower bound on two draws,
  then the upper bound on two draws, and so on.
\<close>

definition alt_ops :: "nat random_ops" where
  "alt_ops = \<lparr>uniform = (\<lambda>a b g. (if g mod 4 < 2 then a else b, g + 1)),
              random = (\<lambda>g. (1 / 2, g + 1)),
              randbelow = (\<lambda>n g. (0, g + 1)),
              randint = (\<lambda>a b g. (a, g + 1))\<rparr>"


text \<open>An engine whose projection puts every point behind the camera.\<close>

definition blind_engine :: engine where
  "blind_engine = demo_engine\<lparr>world_to_camera_view := (\<lambda>c p. (0, 0, - 1))\<rparr>"

text \<open>
  An object with its material slots emptied: two objects that agree on it differ at most
  in their materials.
\<close>

definition without_materials :: "obj \<Rightarrow> obj" where
  "without_materials ob = ob\<lparr>materials := []\<rparr>"

text \<open>A concrete single-camera scene: two pooled windows and one occluder.\<close>

definition demo_scene :: scene where
  "demo_scene = empty_scene\<lparr>cam_obj := demo_camera,
                             coll_board := [new_window 1, new_window 2],
                             coll_occluder := [demo_occluder]\<rparr>"

section \<open>Helper facts\<close>

lemma clamp_into_max_min: "lo \<le> hi \<Longrightarrow> max lo (min hi x) = clamp_into lo hi x"
  by (simp add: clamp_into_def max_def min_def)

lemma max_min_bounds: "(lo::int) \<le> hi \<Longrightarrow> lo \<le> max lo (min hi x) \<and> max lo (min hi x) \<le> hi"
  by (simp add: max_def min_def)

lemma all_corners_in_frame_iff:
  "all_corners_in_frame w2cv cam ps \<longleftrightarrow> list_all (\<lambda>wp. in_frame (w2cv cam wp)) ps"
  by (induction ps) auto

lemma ensure_in_fov_unfold:
  "0 < k \<Longrightarrow> ensure_in_fov ops w2cv mw cam win_obj k g =
     (case sample_window_pose_and_size ops g of (cand, g') \<Rightarrow>
        let win_obj' = apply_candidate cand win_obj
        in if all_corners_in_frame w2cv cam (plane_world_corners mw win_obj')
           then ((True, (vx (fst (snd cand)), vy (fst (snd cand)))), win_obj', g')
           else ensure_in_fov ops w2cv mw cam win_obj' (k - 1) g')"
  by (cases k) (auto simp: Let_def split: prod.splits)

lemma ensure_in_fov_bg_unfold:
  "0 < k \<Longrightarrow> ensure_in_fov_bg ops w2cv mw cam win_obj k g =
     (case sample_window_pose_and_size ops g of (cand, g') \<Rightarrow>
        let win_obj' = apply_candidate cand win_obj
        in if all_corners_in_frame w2cv cam (plane_world_corners mw win_obj')
           then (True, win_obj', g')
           else ensure_in_fov_bg ops w2cv mw cam win_obj' (k - 1) g')"
  by (cases k) (auto simp: Let_def split: prod.splits)

lemma ensure_in_fov_vertices:
  "vertices (fst (snd (ensure_in_fov ops w2cv mw cam win k g))) = vertices win"
  by (induction k arbitrary: win g) (auto simp: Let_def apply_candidate_def split: prod.splits)

lemma ensure_in_fov_bg_vertices:
  "vertices (fst (snd (ensure_in_fov_bg ops w2cv mw cam win k g))) = vertices win"
  by (induction k arbitrary: win g) (auto simp: Let_def apply_candidate_def split: prod.splits)

lemma ensure_in_fov_sound:
  "fst (fst (ensure_in_fov ops w2cv mw cam win k g)) \<Longrightarrow>
     all_corners_in_frame w2cv cam
       (plane_world_corners mw (fst (snd (ensure_in_fov ops w2cv mw cam win k g))))"
  by (induction k arbitrary: win g) (auto simp: Let_def split: prod.splits)

lemma ensure_in_fov_bg_sound:
  "fst (ensure_in_fov_bg ops w2cv mw cam win k g) \<Longrightarrow>
     all_corners_in_frame w2cv cam
       (plane_world_corners mw (fst (snd (ensure_in_fov_bg ops w2cv mw cam win k g))))"
  by (induction k arbitrary: win g) (auto simp: Let_def split: prod.splits)

lemma sample_mid_ops:
  "sample_window_pose_and_size mid_ops (0::nat) = ((4 / 5, (0, 0, 0), (- 6, 0, 0)), 8)"
  by (simp add: sample_window_pose_and_size_def random_skew_def mid_ops_def choice_def
      WINDOW_SIZE_RANGE_def MAX_SKEW_DEG_def MIN_SKEW_DEG_def BOARD_HALF_EXTENTS_def)

lemma ensure_in_fov_mid_ops:
  "ensure_in_fov mid_ops top_w2cv flat_mw 5 (new_window 1) 140 0 =
     ((True, (0, 0)),
      (new_window 1)\<lparr>scale := (2 / 5, 2 / 5, 1), location := (0, 0, 0),
                      rotation_euler := (radians (- 6), radians 0, radians 0)\<rparr>, 8)"
  by (simp add: ensure_in_fov_unfold sample_mid_ops apply_candidate_def
      plane_world_corners_def new_window_def unit_quad_def flat_mw_def top_w2cv_def
      in_frame_def vx_def vy_def vz_def Let_def)

lemma ensure_in_fov_bg_mid_ops:
  "ensure_in_fov_bg mid_ops top_w2cv flat_mw 5 (new_window 1) 140 0 =
     (True,
      (new_window 1)\<lparr>scale := (2 / 5, 2 / 5, 1), location := (0, 0, 0),
                      rotation_euler := (radians (- 6), radians 0, radians 0)\<rparr>, 8)"
  by (simp add: ensure_in_fov_bg_unfold sample_mid_ops apply_candidate_def
      plane_world_corners_def new_window_def unit_quad_def flat_mw_def top_w2cv_def
      in_frame_def vx_def vy_def vz_def Let_def)

lemma far_enough_sym: "far_enough d c p = far_enough d p c"
  by (simp add: far_enough_def power2_commute)

lemma pairwise_apart_snoc:
  assumes "pairwise_apart d pts" and "list_all (far_enough d c) pts"
  shows "pairwise_apart d (pts @ [c])"
  unfolding pairwise_apart_def
proof (intro allI impI)
  fix i j assume i: "i < length (pts @ [c])" and j: "j < length (pts @ [c])" and ne: "i \<noteq> j"
  have c: "\<And>k. k < length pts \<Longrightarrow> far_enough d c (pts ! k)"
    using assms(2) by (simp add: list_all_length)
  show "far_enough d ((pts @ [c]) ! i) ((pts @ [c]) ! j)"
  proof (cases "i < length pts")
    case True
    show ?thesis
    proof (cases "j < length pts")
      case True
      with \<open>i < length pts\<close> ne assms(1) show ?thesis
        by (simp add: pairwise_apart_def nth_append)
    next
      case False
      with j have "j = length pts" by simp
      with True c [of i] show ?thesis by (simp add: nth_append far_enough_sym)
    qed
  next
    case False
    with i have ii: "i = length pts" by simp
    with ne j have "j < length pts" by simp
    with ii c [of j] show ?thesis by (simp add: nth_append)
  qed
qed

lemma loop_apart:
  "pairwise_apart d pts \<Longrightarrow> pairwise_apart d (fst (sample_nonoverlap_loop ops n d pts tries g))"
proof (induction ops n d pts tries g rule: sample_nonoverlap_loop.induct)
  case (1 ops n d pts tries g)
  show ?case
    apply (subst sample_nonoverlap_loop.simps)
    using 1 by (auto simp: Let_def pairwise_apart_snoc)
qed

lemma loop_length:
  "int (length pts) \<le> max n 0 \<Longrightarrow> int (length (fst (sample_nonoverlap_loop ops n d pts tries g))) \<le> max n 0"
proof (induction ops n d pts tries g rule: sample_nonoverlap_loop.induct)
  case (1 ops n d pts tries g)
  show ?case
    apply (subst sample_nonoverlap_loop.simps)
    using 1 by (auto simp: Let_def)
qed

lemma place_pairs_length: "length (fst (place_pairs ops centers idx pairs g)) = length pairs"
  by (induction ops centers idx pairs g rule: place_pairs.induct) (simp_all add: Let_def)

lemma place_pairs_hide:
  "i < length pairs \<Longrightarrow>
     hide_render (fst (fst (place_pairs ops centers idx pairs g) ! i)) = (\<not> idx + i < length centers)
   \<and> hide_render (snd (fst (place_pairs ops centers idx pairs g) ! i)) = (\<not> idx + i < length centers)
   \<and> hide_viewport (fst (fst (place_pairs ops centers idx pairs g) ! i)) = (\<not> idx + i < length centers)
   \<and> hide_viewport (snd (fst (place_pairs ops centers idx pairs g) ! i)) = (\<not> idx + i < length centers)"
proof (induction ops centers idx pairs g arbitrary: i rule: place_pairs.induct)
  case (1 ops centers idx g)
  then show ?case by simp
next
  case (2 ops centers idx r m rest g)
  show ?case
  proof (cases i)
    case 0
    then show ?thesis by (simp add: Let_def)
  next
    case (Suc k)
    with 2 show ?thesis by (auto simp: Let_def)
  qed
qed

lemma place_pairs_visible:
  "visible_pairs (fst (place_pairs ops centers idx pairs g))
     = take (length centers - idx) (fst (place_pairs ops centers idx pairs g))"
proof (induction ops centers idx pairs g rule: place_pairs.induct)
  case (1 ops centers idx g)
  then show ?case by (simp add: visible_pairs_def)
next
  case (2 ops centers idx r m rest g)
  show ?case
  proof (cases "idx < length centers")
    case True
    then have "length centers - idx = Suc (length centers - (idx + 1))" by simp
    with True 2 show ?thesis by (simp add: Let_def visible_pairs_def)
  next
    case False
    with 2 show ?thesis by (simp add: Let_def visible_pairs_def)
  qed
qed

lemma sync_twins_visible: "visible_pairs (sync_twins ps) = sync_twins (visible_pairs ps)"
  by (induction ps) (auto simp: visible_pairs_def sync_twins_def)

lemma mid_ops_simps:
  "uniform mid_ops a b g = ((a + b) / 2, g + 1)"
  "random mid_ops g = (1 / 2, g + 1)"
  "randbelow mid_ops k g = (0, g + 1)"
  "randint mid_ops lo hi g = (lo, g + 1)"
  by (simp_all add: mid_ops_def)

lemma mid_loop:
  "0 < d \<Longrightarrow> sample_nonoverlap_loop mid_ops n d [(0, 0)] tries g
     = ([(0, 0)], g + 2 * (if 1 < n then 250 - tries else 0))"
proof (induction mid_ops n d "[(0, 0)] :: (real \<times> real) list" tries g
    rule: sample_nonoverlap_loop.induct)
  case (1 n d tries g)
  show ?case
    apply (subst sample_nonoverlap_loop.simps)
    using 1 by (auto simp: Let_def mid_ops_simps far_enough_def)
qed

lemma mid_sample:
  assumes "0 < d" and "1 < n"
  shows "fst (sample_nonoverlap mid_ops n d g) = [(0, 0)]"
  unfolding sample_nonoverlap_def
  by (subst sample_nonoverlap_loop.simps) (use assms in \<open>simp add: Let_def mid_ops_simps mid_loop\<close>)

lemma alt_ops_uniform: "uniform alt_ops a b g = (if g mod 4 < 2 then a else b, g + 1)"
  by (simp add: alt_ops_def)

lemma far_enough_sq:
  "0 \<le> d \<Longrightarrow> far_enough d c p \<longleftrightarrow> d\<^sup>2 \<le> (fst c - fst p)\<^sup>2 + (snd c - snd p)\<^sup>2"
  unfolding far_enough_def
  by (metis real_sqrt_le_iff real_sqrt_abs abs_of_nonneg)

lemma alt_sample:
  "fst (sample_nonoverlap alt_ops 2 d_default (0::nat)) = [(- (9 / 10), - (6 / 10)), (9 / 10, 6 / 10)]"
  by (simp add: sample_nonoverlap_def sample_nonoverlap_loop.simps Let_def alt_ops_uniform
      far_enough_sq power2_eq_square d_default_def)

lemma apply_candidate_keeps:
  "name (apply_candidate c w) = name w" "hide_render (apply_candidate c w) = hide_render w"
  "hide_viewport (apply_candidate c w) = hide_viewport w"
  "vertices (apply_candidate c w) = vertices w" "materials (apply_candidate c w) = materials w"
  "otype (apply_candidate c w) = otype w"
  by (simp_all add: apply_candidate_def split: prod.splits)

lemma ensure_in_fov_keeps:
  "name (fst (snd (ensure_in_fov ops w2cv mw cam w k g))) = name w
   \<and> hide_render (fst (snd (ensure_in_fov ops w2cv mw cam w k g))) = hide_render w
   \<and> hide_viewport (fst (snd (ensure_in_fov ops w2cv mw cam w k g))) = hide_viewport w
   \<and> materials (fst (snd (ensure_in_fov ops w2cv mw cam w k g))) = materials w"
  by (induction k arbitrary: w g) (auto simp: Let_def apply_candidate_keeps split: prod.splits)

lemma ensure_in_fov_bg_keeps:
  "name (fst (snd (ensure_in_fov_bg ops w2cv mw cam w k g))) = name w
   \<and> hide_render (fst (snd (ensure_in_fov_bg ops w2cv mw cam w k g))) = hide_render w
   \<and> hide_viewport (fst (snd (ensure_in_fov_bg ops w2cv mw cam w k g))) = hide_viewport w
   \<and> materials (fst (snd (ensure_in_fov_bg ops w2cv mw cam w k g))) = materials w"
  by (induction k arbitrary: w g) (auto simp: Let_def apply_candidate_keeps split: prod.splits)

lemma place_window_keeps:
  "name (fst (place_window ops eng cam w g)) = name w
   \<and> \<not> hide_render (fst (place_window ops eng cam w g))
   \<and> \<not> hide_viewport (fst (place_window ops eng cam w g))
   \<and> vertices (fst (place_window ops eng cam w g)) = vertices w
   \<and> materials (fst (place_window ops eng cam w g)) = materials w"
  by (simp add: place_window_def Let_def fallback_pose_def ensure_in_fov_keeps ensure_in_fov_vertices)

lemma place_window_bg_keeps:
  "name (fst (place_window_bg ops eng cam w g)) = name w
   \<and> \<not> hide_render (fst (place_window_bg ops eng cam w g))
   \<and> \<not> hide_viewport (fst (place_window_bg ops eng cam w g))
   \<and> vertices (fst (place_window_bg ops eng cam w g)) = vertices w
   \<and> materials (fst (place_window_bg ops eng cam w g)) = materials w"
  by (simp add: place_window_bg_def Let_def fallback_pose_def ensure_in_fov_bg_keeps ensure_in_fov_bg_vertices)

lemma place_each_length: "length (fst (place_each place ws g)) = length ws"
  by (induction place ws g rule: place_each.induct) (simp_all add: Let_def)

lemma place_each_map:
  assumes "\<And>w g. f (fst (place w g)) = f w"
  shows "map f (fst (place_each place ws g)) = map f ws"
  by (induction ws arbitrary: g) (simp_all add: Let_def assms)

lemma place_each_list_all:
  assumes "\<And>w g. P (fst (place w g))"
  shows "list_all P (fst (place_each place ws g))"
  by (induction ws arbitrary: g) (simp_all add: Let_def assms)

lemma order_four:
  "length pxpts = 4 \<Longrightarrow> \<exists>px. order_tl_tr_br_bl pxpts = Inr px \<and> length px = 4"
  by (simp add: order_tl_tr_br_bl_def Let_def)

lemma keypoint_record_ok:
  "4 \<le> length (vertices w) \<Longrightarrow>
     \<exists>r. keypoint_record eng cam w = Inr r \<and> object_name r = name w \<and> length (keypoints r) = 4"
proof -
  assume a: "4 \<le> length (vertices w)"
  let ?px = "project_to_pixels (world_to_camera_view eng) cam
               (plane_world_corners (matrix_world eng) w) (fst IMG_RES) (snd IMG_RES)"
  have "length ?px = 4" using a by (simp add: project_to_pixels_def plane_world_corners_def)
  from order_four [OF this] obtain px where "order_tl_tr_br_bl ?px = Inr px" "length px = 4" by blast
  then show ?thesis by (simp add: keypoint_record_def Let_def)
qed

lemma keypoint_records_ok:
  "list_all (\<lambda>w. 4 \<le> length (vertices w)) ws \<Longrightarrow>
     \<exists>rs. keypoint_records eng cam ws = Inr rs \<and> map object_name rs = map name ws
          \<and> list_all (\<lambda>r. length (keypoints r) = 4) rs"
proof (induction ws)
  case Nil then show ?case by simp
next
  case (Cons w ws)
  then obtain rs where rs: "keypoint_records eng cam ws = Inr rs" "map object_name rs = map name ws"
     "list_all (\<lambda>r. length (keypoints r) = 4) rs" by auto
  from Cons.prems keypoint_record_ok [of w eng cam]
  obtain r where r: "keypoint_record eng cam w = Inr r" "object_name r = name w" "length (keypoints r) = 4"
    by auto
  show ?case using r rs by simp
qed


lemma place_each_names:
  "map name (fst (place_each (place_window ops eng cam) ws g)) = map name ws"
  by (rule place_each_map) (simp add: place_window_keeps)

lemma place_each_shown:
  "list_all (\<lambda>w. \<not> hide_render w \<and> \<not> hide_viewport w)
     (fst (place_each (place_window ops eng cam) ws g))"
  by (rule place_each_list_all) (simp add: place_window_keeps)

lemma place_each_vertices:
  "map vertices (fst (place_each (place_window ops eng cam) ws g)) = map vertices ws"
  by (rule place_each_map) (simp add: place_window_keeps)

lemma place_each_names_bg:
  "map name (fst (place_each (place_window_bg ops eng cam) ws g)) = map name ws"
  by (rule place_each_map) (simp add: place_window_bg_keeps)

lemma place_each_shown_bg:
  "list_all (\<lambda>w. \<not> hide_render w \<and> \<not> hide_viewport w)
     (fst (place_each (place_window_bg ops eng cam) ws g))"
  by (rule place_each_list_all) (simp add: place_window_bg_keeps)

lemma place_each_vertices_bg:
  "map vertices (fst (place_each (place_window_bg ops eng cam) ws g)) = map vertices ws"
  by (rule place_each_map) (simp add: place_window_bg_keeps)

lemma list_all_vertices_cong:
  "map vertices ws' = map vertices ws \<Longrightarrow>
     list_all (\<lambda>w. 4 \<le> length (vertices w)) ws' = list_all (\<lambda>w. 4 \<le> length (vertices w)) ws"
proof -
  assume "map vertices ws' = map vertices ws"
  then have "list_all (\<lambda>v. 4 \<le> length v) (map vertices ws')
           = list_all (\<lambda>v. 4 \<le> length v) (map vertices ws)" by simp
  then show ?thesis by (simp add: list_all_iff)
qed

lemma ensure_fails:
  "vertices w \<noteq> [] \<Longrightarrow>
     \<not> fst (fst (ensure_in_fov ops (\<lambda>c p. (0, 0, - 1)) mw cam w k g))"
proof (induction k arbitrary: w g)
  case 0 then show ?case by simp
next
  case (Suc k)
  have "\<And>c. vertices (apply_candidate c w) \<noteq> []" using Suc.prems by (simp add: apply_candidate_keeps)
  moreover have "\<And>w'. vertices w' \<noteq> [] \<Longrightarrow> \<not> all_corners_in_frame (\<lambda>c p. (0, 0, - 1)) cam (plane_world_corners mw w')"
    by (simp add: all_corners_in_frame_iff plane_world_corners_def in_frame_def vz_def
        list_all_iff take_eq_Nil)
  ultimately show ?case using Suc.IH by (auto simp: Let_def split: prod.splits)
qed

lemma ensure_bg_fails:
  "vertices w \<noteq> [] \<Longrightarrow>
     \<not> fst (ensure_in_fov_bg ops (\<lambda>c p. (0, 0, - 1)) mw cam w k g)"
proof (induction k arbitrary: w g)
  case 0 then show ?case by simp
next
  case (Suc k)
  have "\<And>c. vertices (apply_candidate c w) \<noteq> []" using Suc.prems by (simp add: apply_candidate_keeps)
  moreover have "\<And>w'. vertices w' \<noteq> [] \<Longrightarrow> \<not> all_corners_in_frame (\<lambda>c p. (0, 0, - 1)) cam (plane_world_corners mw w')"
    by (simp add: all_corners_in_frame_iff plane_world_corners_def in_frame_def vz_def
        list_all_iff take_eq_Nil)
  ultimately show ?case using Suc.IH by (auto simp: Let_def split: prod.splits)
qed

lemma set_window_material_pose:
  "map pose (set_window_material m k ws) = map pose ws"
proof -
  have "map pose (map (\<lambda>w. w\<lparr>materials := [m]\<rparr>) (take k ws)) = map pose (take k ws)"
    by (simp add: pose_def)
  then have "map pose (set_window_material m k ws) = map pose (take k ws) @ map pose (drop k ws)"
    by (simp add: set_window_material_def)
  also have "\<dots> = map pose ws" by (simp flip: map_append)
  finally show ?thesis .
qed

lemma set_window_material_without:
  "map without_materials (set_window_material m k ws) = map without_materials ws"
proof -
  have "map without_materials (map (\<lambda>w. w\<lparr>materials := [m]\<rparr>) (take k ws))
          = map without_materials (take k ws)"
    by (simp add: without_materials_def)
  then have "map without_materials (set_window_material m k ws)
          = map without_materials (take k ws) @ map without_materials (drop k ws)"
    by (simp add: set_window_material_def)
  also have "\<dots> = map without_materials ws" by (simp flip: map_append)
  finally show ?thesis .
qed

lemma without_materials_pose: "map without_materials xs = map without_materials ys \<Longrightarrow> map pose xs = map pose ys"
proof -
  assume a: "map without_materials xs = map without_materials ys"
  have "\<And>zs. map pose zs = map pose (map without_materials zs)"
    by (simp add: pose_def without_materials_def)
  then show ?thesis using a by metis
qed

lemma take_set_window_material:
  "take k (set_window_material m k ws) = map (\<lambda>w. w\<lparr>materials := [m]\<rparr>) (take k ws)"
  by (auto simp: set_window_material_def)

lemma blacken_without:
  "map without_materials (map (\<lambda>ob. if otype ob = MESH then ob\<lparr>materials := [Black_Emission]\<rparr> else ob) os)
     = map without_materials os"
  by (induction os) (simp_all add: without_materials_def)

lemma rgb_pass_frame:
  "map without_materials (coll_board (rgb_pass k f s)) = map without_materials (coll_board s)
   \<and> coll_occluder (rgb_pass k f s) = coll_occluder s
   \<and> cam_obj (rgb_pass k f s) = cam_obj s \<and> coll_lights (rgb_pass k f s) = coll_lights s"
  by (simp add: rgb_pass_def set_window_material_without)

lemma mask_pass_frame:
  "map without_materials (coll_board (mask_pass k f s)) = map without_materials (coll_board s)
   \<and> map without_materials (coll_occluder (mask_pass k f s)) = map without_materials (coll_occluder s)
   \<and> cam_obj (mask_pass k f s) = cam_obj s \<and> coll_lights (mask_pass k f s) = coll_lights s"
  by (auto simp: mask_pass_def set_window_material_without without_materials_def)

lemma rgb_pass_bg_frame:
  "map without_materials (coll_board (fst (rgb_pass_bg ops bg k f s g))) = map without_materials (coll_board s)
   \<and> coll_occluder (fst (rgb_pass_bg ops bg k f s g)) = coll_occluder s
   \<and> cam_obj (fst (rgb_pass_bg ops bg k f s g)) = cam_obj s
   \<and> coll_lights (fst (rgb_pass_bg ops bg k f s g)) = coll_lights s"
  by (simp add: rgb_pass_bg_def Let_def set_window_material_without)

lemma mask_pass_bg_frame:
  "map without_materials (coll_board (mask_pass_bg k f s)) = map without_materials (coll_board s)
   \<and> map without_materials (coll_occluder (mask_pass_bg k f s)) = map without_materials (coll_occluder s)
   \<and> cam_obj (mask_pass_bg k f s) = cam_obj s \<and> coll_lights (mask_pass_bg k f s) = coll_lights s"
  by (simp add: mask_pass_bg_def mask_pass_frame)

lemma capture_frame_scene: "fst (capture_frame eng render k f s) = mask_pass k f (rgb_pass k f s)"
  by (simp add: capture_frame_def Let_def split: sum.splits)

lemma camera_pass_objects:
  "mc_pairs (fst (camera_pass eng render f ci cam s)) = mc_pairs s
   \<and> mc_occluders (fst (camera_pass eng render f ci cam s)) = mc_occluders s
   \<and> mc_backdrop (fst (camera_pass eng render f ci cam s)) = mc_backdrop s
   \<and> mc_cams (fst (camera_pass eng render f ci cam s)) = mc_cams s"
  by (simp add: camera_pass_def Let_def set_excludes_for_rgb_def set_excludes_for_mask_def
      split: sum.splits)

lemma camera_loop_objects:
  "mc_pairs (fst (camera_loop eng render f ci cs s)) = mc_pairs s
   \<and> mc_occluders (fst (camera_loop eng render f ci cs s)) = mc_occluders s
   \<and> mc_backdrop (fst (camera_loop eng render f ci cs s)) = mc_backdrop s
   \<and> mc_cams (fst (camera_loop eng render f ci cs s)) = mc_cams s"
proof (induction cs arbitrary: ci s)
  case Nil then show ?case by simp
next
  case (Cons cam cs)
  show ?case
    using Cons.IH [of "ci + 1" "fst (camera_pass eng render f ci cam s)"]
      camera_pass_objects [of eng render f ci cam s]
    by (simp add: Let_def split: option.splits)
qed

lemma keypoint_record_materials:
  assumes "\<forall>ob ms. matrix_world eng (ob\<lparr>materials := ms\<rparr>) = matrix_world eng ob"
  shows "keypoint_record eng cam (w\<lparr>materials := ms\<rparr>) = keypoint_record eng cam w"
  using assms by (simp add: keypoint_record_def plane_world_corners_def split: sum.splits)

lemma keypoint_records_materials:
  assumes "\<forall>ob ms. matrix_world eng (ob\<lparr>materials := ms\<rparr>) = matrix_world eng ob"
  shows "keypoint_records eng cam (map (\<lambda>w. w\<lparr>materials := ms\<rparr>) ws) = keypoint_records eng cam ws"
  by (induction ws) (simp_all add: keypoint_record_materials [OF assms] split: sum.splits)

lemma capture_keypoints:
  assumes "\<forall>ob ms. matrix_world eng (ob\<lparr>materials := ms\<rparr>) = matrix_world eng ob"
  shows "keypoint_records eng (cam_obj (mask_pass k f (rgb_pass k f s)))
           (take k (coll_board (mask_pass k f (rgb_pass k f s))))
       = keypoint_records eng (cam_obj s) (take k (coll_board s))"
proof -
  have c: "cam_obj (mask_pass k f (rgb_pass k f s)) = cam_obj s"
    by (simp add: mask_pass_def rgb_pass_def)
  have t: "take k (coll_board (mask_pass k f (rgb_pass k f s)))
         = map (\<lambda>w. w\<lparr>materials := [Window_MASK_Union]\<rparr>)
             (map (\<lambda>w. w\<lparr>materials := [Window_RGB_EmitTransp]\<rparr>) (take k (coll_board s)))"
    by (simp add: mask_pass_def rgb_pass_def take_set_window_material del: map_map)
  show ?thesis
    by (simp only: c t keypoint_records_materials [OF assms])
qed


lemma camera_pass_scene:
  "fst (camera_pass eng render f ci cam s)
     = (set_excludes_for_mask
          (((set_excludes_for_rgb (s\<lparr>scene_camera := Some cam, mc_color_mode := RGB\<rparr>))
             \<lparr>mc_filepath := Some (Mc_img ci f)\<rparr>)\<lparr>mc_color_mode := BW\<rparr>))
         \<lparr>mc_filepath := Some (Mc_mask ci f)\<rparr>"
  by (simp add: camera_pass_def Let_def split: sum.splits)

lemma flat_mw_materials: "flat_mw (ob\<lparr>materials := ms\<rparr>) = flat_mw ob"
  by (rule ext) (simp add: flat_mw_def)

lemma mask_pass_materials:
  "list_all (\<lambda>w. materials w = [Window_MASK_Union]) (take k (coll_board (mask_pass k f s)))
   \<and> list_all (\<lambda>ob. otype ob = MESH \<longrightarrow> materials ob = [Black_Emission]) (coll_occluder (mask_pass k f s))
   \<and> world_color (mask_pass k f s) = Some (0, 0, 0, 1)"
  by (auto simp: mask_pass_def take_set_window_material list_all_iff)

lemma spawn_occluders_from_mesh:
  "list_all (\<lambda>ob. otype ob = MESH) (fst (spawn_occluders_from ops eng i k g))"
  by (induction k arbitrary: i g) (simp_all add: Let_def)

lemma randomize_frame_occluders_mesh:
  "list_all (\<lambda>ob. otype ob = MESH) (coll_occluder (fst (randomize_frame ops eng lo hi s g)))"
  by (simp add: randomize_frame_def Let_def spawn_occluders_random_def spawn_occluders_from_mesh)

lemma place_pairs_twin_materials:
  "map (\<lambda>p. materials (snd p)) (fst (place_pairs ops centers idx ps g)) = map (\<lambda>p. materials (snd p)) ps"
  by (induction ops centers idx ps g rule: place_pairs.induct) (simp_all add: Let_def)

lemma place_windows_twin_materials:
  "map (\<lambda>p. materials (snd p)) (fst (place_windows ops n ps g)) = map (\<lambda>p. materials (snd p)) ps"
  using place_pairs_twin_materials [of ops _ 0 ps]
  by (simp add: place_windows_def Let_def sync_twins_def split_beta comp_def)

lemma mask_pass_bg_materials:
  "list_all (\<lambda>w. materials w = [Window_MASK_Union]) (take k (coll_board (mask_pass_bg k f s)))
   \<and> list_all (\<lambda>ob. otype ob = MESH \<longrightarrow> materials ob = [Black_Emission])
        (coll_occluder (mask_pass_bg k f s))
   \<and> world_color (mask_pass_bg k f s) = Some (0, 0, 0, 1)"
  unfolding mask_pass_bg_def by (rule mask_pass_materials)

lemma mask_pass_all_black:
  "list_all (\<lambda>ob. otype ob = MESH) (coll_occluder s) \<Longrightarrow>
     list_all (\<lambda>ob. materials ob = [Black_Emission]) (coll_occluder (mask_pass k f s))"
  by (auto simp: mask_pass_def list_all_iff)

lemma camera_pass_flags:
  "lc_occluders_exclude (fst (camera_pass eng render f ci cam ms))
   \<and> \<not> lc_windows_msk_exclude (fst (camera_pass eng render f ci cam ms))
   \<and> lc_windows_rgb_exclude (fst (camera_pass eng render f ci cam ms))
   \<and> \<not> lc_backdrop_exclude (fst (camera_pass eng render f ci cam ms))
   \<and> lc_misc_exclude (fst (camera_pass eng render f ci cam ms))"
  by (simp add: camera_pass_scene set_excludes_for_mask_def)

section \<open>Pixel mapping\<close>

text \<open>
  Claim C2, as amended. For an image of at least one pixel each way, the single-camera
  scripts' \<open>project_to_pixels\<close> maps every point to the specification's pixel:
  \<open>x = round(u (W - 1))\<close> clamped into \<open>[0, W - 1]\<close> and
  \<open>y = round((1 - v) (H - 1))\<close> clamped into \<open>[0, H - 1]\<close>, the vertical flip
  included. The multi-camera script's \<open>project_pixels\<close> maps \<open>x\<close> the same way but
  \<open>y = round(v (H - 1))\<close> clamped into \<open>[0, H - 1]\<close>, with no vertical flip: its
  \<open>y\<close> is counted from the bottom edge.
\<close>

theorem pixel_mapping_per_variant:
  assumes "1 \<le> W" and "1 \<le> H"
  shows "project_to_pixels w2cv cam pts W H =
           map (\<lambda>wp. spec_to_pixel (vx (w2cv cam wp)) (vy (w2cv cam wp)) W H) pts
       \<and> project_pixels w2cv cam pts W H =
           map (\<lambda>wp. (clamp_into 0 (W - 1) (py_round (vx (w2cv cam wp) * of_int (W - 1))),
                       clamp_into 0 (H - 1) (py_round (vy (w2cv cam wp) * of_int (H - 1))))) pts"
  using assms
  by (simp add: project_to_pixels_def project_pixels_def spec_to_pixel_def Let_def
      clamp_into_max_min)

theorem pixel_mapping_per_variant_witness:
  "(1::int) \<le> 640 \<and> (1::int) \<le> 648
   \<and> project_to_pixels (\<lambda>c p. p) () [(1 / 4, 1 / 4, 1)] 640 648 = [(160, 485)]
   \<and> project_pixels (\<lambda>c p. p) () [(1 / 4, 1 / 4, 1)] 640 648 = [(160, 162)]"
proof -
  have W: "(1::int) \<le> 640" and H: "(1::int) \<le> 648" by simp_all
  show ?thesis
    using pixel_mapping_per_variant [OF W H, of "\<lambda>c p. p" "()" "[(1 / 4, 1 / 4, 1)]"]
    by (simp add: spec_to_pixel_def clamp_into_def py_round_def vx_def vy_def)
qed

text \<open>
  The claim as stated fails on the multi-camera script: the point at the bottom-left of
  the view, \<open>(u, v) = (0, 0)\<close>, gets \<open>y = 0\<close> there, where the specification's
  mapping gives the bottom row \<open>y = 647\<close>.
\<close>

theorem pixel_mapping_multi_camera_counterexample:
  "project_pixels (\<lambda>c p. p) () [(0, 0, 1)] 640 648 = [(0, 0)]
   \<and> spec_to_pixel 0 0 640 648 = (0, 647)
   \<and> project_pixels (\<lambda>c p. p) () [(0, 0, 1)] 640 648 \<noteq> [spec_to_pixel 0 0 640 648]"
  by (simp add: project_pixels_def spec_to_pixel_def clamp_into_def py_round_def vx_def vy_def)

section \<open>Corner ordering\<close>

text \<open>
  Claim C3 asks for the two smallest-\<open>y\<close> points (the topmost ones of an image whose
  \<open>y\<close> grows downward) first. On the axis-aligned square below, given in image
  coordinates, \<open>order_tl_tr_br_bl\<close> returns the two largest-\<open>y\<close> points first: the
  point it puts in the top-left slot is the bottom-left corner \<open>(100, 200)\<close>.
\<close>

theorem order_tl_tr_br_bl_bottom_first:
  "order_tl_tr_br_bl [(100, 100), (200, 100), (200, 200), (100, 200)]
     = Inr [(100, 200), (200, 200), (200, 100), (100, 100)]"
  by (simp add: order_tl_tr_br_bl_def)

section \<open>Keypoints stay inside the image\<close>

text \<open>
  Claim C10. For an image of at least one pixel each way, every pixel returned by the
  keypoint projection of either variant lies in \<open>[0, W - 1] \<times> [0, H - 1]\<close>, whatever
  the engine's projection returns for the point (behind the camera, outside the view
  rectangle); one pixel is returned per point. A point behind the camera and outside the
  view rectangle is clamped to the image border, here to the corner \<open>(639, 647)\<close>,
  which is not its projected position.
\<close>

theorem keypoints_in_bounds:
  assumes "1 \<le> W" and "1 \<le> H"
  shows "(\<forall>p \<in> set (project_to_pixels w2cv cam pts W H).
            0 \<le> fst p \<and> fst p \<le> W - 1 \<and> 0 \<le> snd p \<and> snd p \<le> H - 1)
       \<and> (\<forall>p \<in> set (project_pixels w2cv cam pts W H).
            0 \<le> fst p \<and> fst p \<le> W - 1 \<and> 0 \<le> snd p \<and> snd p \<le> H - 1)
       \<and> length (project_to_pixels w2cv cam pts W H) = length pts
       \<and> length (project_pixels w2cv cam pts W H) = length pts
       \<and> project_to_pixels (\<lambda>c p. p) () [(2, - 1, - 1)] 640 648 = [(639, 647)]"
proof -
  have bw: "\<And>x. 0 \<le> max 0 (min (W - 1) x) \<and> max 0 (min (W - 1) x) \<le> W - 1"
    using assms(1) max_min_bounds [of 0 "W - 1"] by simp
  have bh: "\<And>y. 0 \<le> max 0 (min (H - 1) y) \<and> max 0 (min (H - 1) y) \<le> H - 1"
    using assms(2) max_min_bounds [of 0 "H - 1"] by simp
  have a: "\<forall>p \<in> set (project_to_pixels w2cv cam pts W H).
            0 \<le> fst p \<and> fst p \<le> W - 1 \<and> 0 \<le> snd p \<and> snd p \<le> H - 1"
    using bw bh by (auto simp: project_to_pixels_def Let_def)
  have b: "\<forall>p \<in> set (project_pixels w2cv cam pts W H).
            0 \<le> fst p \<and> fst p \<le> W - 1 \<and> 0 \<le> snd p \<and> snd p \<le> H - 1"
    using bw bh by (auto simp: project_pixels_def Let_def)
  have c: "project_to_pixels (\<lambda>c p. p) () [(2, - 1, - 1)] 640 648 = [(639, 647)]"
    by (simp add: project_to_pixels_def vx_def vy_def py_round_def)
  show ?thesis
    using a b c by (simp add: project_to_pixels_def project_pixels_def)
qed

theorem keypoints_in_bounds_witness:
  "(1::int) \<le> 640 \<and> (1::int) \<le> 648
   \<and> list_all (\<lambda>p. 0 \<le> fst p \<and> fst p \<le> 639 \<and> 0 \<le> snd p \<and> snd p \<le> 647)
        (project_to_pixels (\<lambda>c p. p) () [(2, - 1, - 1), (- 3, 5, 0)] 640 648)
   \<and> list_all (\<lambda>p. 0 \<le> fst p \<and> fst p \<le> 639 \<and> 0 \<le> snd p \<and> snd p \<le> 647)
        (project_pixels (\<lambda>c p. p) () [(2, - 1, - 1), (- 3, 5, 0)] 640 648)"
proof -
  have W: "(1::int) \<le> 640" and H: "(1::int) \<le> 648" by simp_all
  show ?thesis
    using keypoints_in_bounds [OF W H, of "\<lambda>c p. p" "()" "[(2, - 1, - 1), (- 3, 5, 0)]"]
    by (simp add: list_all_iff)
qed

section \<open>In-FOV acceptance\<close>

text \<open>
  Claim C1. Whenever \<open>ensure_in_fov\<close> returns the success flag, in either single-camera
  script, for every random source, camera, engine and number of tries, every world-space
  corner of the window as the function leaves it projects to \<open>0 \<le> u \<le> 1\<close>,
  \<open>0 \<le> v \<le> 1\<close> and \<open>depth > 0\<close>; the corners are the first four mesh vertices
  of the window, which the function does not change.
\<close>

theorem ensure_in_fov_success_in_frame:
  "(fst (fst (ensure_in_fov ops w2cv mw cam win k g)) \<longrightarrow>
      list_all (\<lambda>wp. 0 \<le> vx (w2cv cam wp) \<and> vx (w2cv cam wp) \<le> 1
                    \<and> 0 \<le> vy (w2cv cam wp) \<and> vy (w2cv cam wp) \<le> 1 \<and> 0 < vz (w2cv cam wp))
        (plane_world_corners mw (fst (snd (ensure_in_fov ops w2cv mw cam win k g)))))
   \<and> (fst (ensure_in_fov_bg ops w2cv mw cam win k g) \<longrightarrow>
      list_all (\<lambda>wp. 0 \<le> vx (w2cv cam wp) \<and> vx (w2cv cam wp) \<le> 1
                    \<and> 0 \<le> vy (w2cv cam wp) \<and> vy (w2cv cam wp) \<le> 1 \<and> 0 < vz (w2cv cam wp))
        (plane_world_corners mw (fst (snd (ensure_in_fov_bg ops w2cv mw cam win k g)))))
   \<and> length (plane_world_corners mw (fst (snd (ensure_in_fov ops w2cv mw cam win k g))))
       = min 4 (length (vertices win))
   \<and> length (plane_world_corners mw (fst (snd (ensure_in_fov_bg ops w2cv mw cam win k g))))
       = min 4 (length (vertices win))"
  using ensure_in_fov_sound [of ops w2cv mw cam win k g]
    ensure_in_fov_bg_sound [of ops w2cv mw cam win k g]
  by (simp add: all_corners_in_frame_iff in_frame_def plane_world_corners_def
      ensure_in_fov_vertices ensure_in_fov_bg_vertices min.commute)

theorem ensure_in_fov_success_in_frame_witness:
  "fst (fst (ensure_in_fov mid_ops top_w2cv flat_mw 5 (new_window 1) 140 0))
   \<and> list_all (\<lambda>wp. 0 \<le> vx (top_w2cv 5 wp) \<and> vx (top_w2cv 5 wp) \<le> 1
                 \<and> 0 \<le> vy (top_w2cv 5 wp) \<and> vy (top_w2cv 5 wp) \<le> 1 \<and> 0 < vz (top_w2cv 5 wp))
        (plane_world_corners flat_mw
          (fst (snd (ensure_in_fov mid_ops top_w2cv flat_mw 5 (new_window 1) 140 0))))
   \<and> fst (ensure_in_fov_bg mid_ops top_w2cv flat_mw 5 (new_window 1) 140 0)
   \<and> list_all (\<lambda>wp. 0 \<le> vx (top_w2cv 5 wp) \<and> vx (top_w2cv 5 wp) \<le> 1
                 \<and> 0 \<le> vy (top_w2cv 5 wp) \<and> vy (top_w2cv 5 wp) \<le> 1 \<and> 0 < vz (top_w2cv 5 wp))
        (plane_world_corners flat_mw
          (fst (snd (ensure_in_fov_bg mid_ops top_w2cv flat_mw 5 (new_window 1) 140 0))))"
proof -
  have a: "fst (fst (ensure_in_fov mid_ops top_w2cv flat_mw 5 (new_window 1) 140 0))"
    unfolding ensure_in_fov_mid_ops by simp
  have b: "fst (ensure_in_fov_bg mid_ops top_w2cv flat_mw 5 (new_window 1) 140 0)"
    unfolding ensure_in_fov_bg_mid_ops by simp
  show ?thesis
    using a b
      ensure_in_fov_success_in_frame [of mid_ops top_w2cv flat_mw 5 "new_window 1" 140 0]
    by blast
qed

section \<open>Minimum skew\<close>

text \<open>
  Claim C7. Let \<open>rx0\<close>, \<open>ry0\<close>, \<open>rz0\<close> be the three axis rotations that
  \<open>sample_window_pose_and_size\<close> draws after the size. The rotation it returns has an
  axis of absolute value at least \<open>MIN_SKEW_DEG\<close>; when all three draws are below
  \<open>MIN_SKEW_DEG\<close> in absolute value, one axis of the result is \<open>MIN_SKEW_DEG\<close> or its
  negative and the other two are the draws, and otherwise the result is the three draws.
  The forced axis is the one \<^verbatim>\<open>random.choice([0,1,2])\<close> returns; that the choice
  is uniform is a property of the random source, not stated here.
\<close>

theorem sample_window_pose_min_skew:
  "(case uniform ops (fst WINDOW_SIZE_RANGE) (snd WINDOW_SIZE_RANGE) g of (sz, g1) \<Rightarrow>
    case uniform ops (- MAX_SKEW_DEG) MAX_SKEW_DEG g1 of (rx0, g2) \<Rightarrow>
    case uniform ops (- MAX_SKEW_DEG) MAX_SKEW_DEG g2 of (ry0, g3) \<Rightarrow>
    case uniform ops (- MAX_SKEW_DEG) MAX_SKEW_DEG g3 of (rz0, g4) \<Rightarrow>
    case sample_window_pose_and_size ops g of ((sz', loc, (rx, ry, rz)), g') \<Rightarrow>
      MIN_SKEW_DEG \<le> max \<bar>rx\<bar> (max \<bar>ry\<bar> \<bar>rz\<bar>)
      \<and> (if max \<bar>rx0\<bar> (max \<bar>ry0\<bar> \<bar>rz0\<bar>) < MIN_SKEW_DEG
         then (\<bar>rx\<bar> = MIN_SKEW_DEG \<and> ry = ry0 \<and> rz = rz0)
            \<or> (rx = rx0 \<and> \<bar>ry\<bar> = MIN_SKEW_DEG \<and> rz = rz0)
            \<or> (rx = rx0 \<and> ry = ry0 \<and> \<bar>rz\<bar> = MIN_SKEW_DEG)
         else (rx, ry, rz) = (rx0, ry0, rz0)))"
  by (auto simp: sample_window_pose_and_size_def random_skew_def Let_def MIN_SKEW_DEG_def
      split: prod.splits if_splits)

section \<open>Non-overlapping centres\<close>

text \<open>
  Claim C5. Every two centres at distinct positions of the list \<open>sample_nonoverlap\<close>
  returns are at Euclidean distance at least \<open>d\<close>; it returns at most \<open>n\<close> centres
  (none for a non-positive \<open>n\<close>), and it can return fewer: a random source that keeps
  drawing the same point yields one centre for \<open>n = 3\<close>. When \<open>n\<close> is at most the
  number of window pairs (the caller draws \<open>n\<close> from \<open>1\<close> to \<open>MAX_WINDOWS\<close>, the
  size of the pool), \<open>place_windows\<close> leaves visible exactly the first pairs, as many as
  centres were returned, and hides both windows of every other pair.
\<close>

theorem sample_nonoverlap_separated:
  assumes "n \<le> int (length pairs)"
  shows "(\<forall>i < length (fst (sample_nonoverlap ops n d g)).
          \<forall>j < length (fst (sample_nonoverlap ops n d g)). i \<noteq> j \<longrightarrow>
            d \<le> sqrt ((fst (fst (sample_nonoverlap ops n d g) ! i)
                         - fst (fst (sample_nonoverlap ops n d g) ! j))\<^sup>2
                      + (snd (fst (sample_nonoverlap ops n d g) ! i)
                         - snd (fst (sample_nonoverlap ops n d g) ! j))\<^sup>2))
       \<and> int (length (fst (sample_nonoverlap ops n d g))) \<le> max n 0
       \<and> fst (sample_nonoverlap mid_ops 3 d_default (0::nat)) = [(0, 0)]
       \<and> length (fst (place_windows ops n pairs g)) = length pairs
       \<and> visible_pairs (fst (place_windows ops n pairs g))
           = take (length (fst (sample_nonoverlap ops n d_default g)))
               (fst (place_windows ops n pairs g))
       \<and> length (visible_pairs (fst (place_windows ops n pairs g)))
           = length (fst (sample_nonoverlap ops n d_default g))
       \<and> (\<forall>i < length pairs.
            hide_render (fst (fst (place_windows ops n pairs g) ! i))
              = (\<not> i < length (fst (sample_nonoverlap ops n d_default g)))
          \<and> hide_render (snd (fst (place_windows ops n pairs g) ! i))
              = (\<not> i < length (fst (sample_nonoverlap ops n d_default g))))"
proof -
  let ?C = "fst (sample_nonoverlap ops n d g)"
  let ?C' = "sample_nonoverlap ops n d_default g"
  let ?P = "place_pairs ops (fst ?C') 0 pairs (snd ?C')"
  have "pairwise_apart d ?C"
    unfolding sample_nonoverlap_def by (rule loop_apart) (simp add: pairwise_apart_def)
  then have a: "\<forall>i < length ?C. \<forall>j < length ?C. i \<noteq> j \<longrightarrow>
            d \<le> sqrt ((fst (?C ! i) - fst (?C ! j))\<^sup>2 + (snd (?C ! i) - snd (?C ! j))\<^sup>2)"
    by (simp add: pairwise_apart_def far_enough_def)
  have b: "\<And>d. int (length (fst (sample_nonoverlap ops n d g))) \<le> max n 0"
    unfolding sample_nonoverlap_def by (rule loop_length) simp
  have c: "fst (sample_nonoverlap mid_ops 3 d_default (0::nat)) = [(0, 0)]"
    by (rule mid_sample) (simp_all add: d_default_def)
  have pw: "fst (place_windows ops n pairs g) = sync_twins (fst ?P)"
    by (simp add: place_windows_def Let_def)
  have len: "length (fst (place_windows ops n pairs g)) = length pairs"
    by (simp add: pw sync_twins_def place_pairs_length)
  have le: "length (fst ?C') \<le> length pairs"
    using b [of d_default] assms by linarith
  have v: "visible_pairs (fst (place_windows ops n pairs g))
           = take (length (fst ?C')) (fst (place_windows ops n pairs g))"
  proof -
    have "visible_pairs (sync_twins (fst ?P)) = sync_twins (visible_pairs (fst ?P))"
      by (rule sync_twins_visible)
    also have "\<dots> = sync_twins (take (length (fst ?C')) (fst ?P))"
      using place_pairs_visible [of ops "fst ?C'" 0 pairs "snd ?C'"] by simp
    also have "\<dots> = take (length (fst ?C')) (sync_twins (fst ?P))"
      by (simp add: sync_twins_def take_map)
    finally show ?thesis by (simp only: pw)
  qed
  have vl: "length (visible_pairs (fst (place_windows ops n pairs g))) = length (fst ?C')"
    using le by (simp add: v len)
  have h: "\<forall>i < length pairs.
            hide_render (fst (fst (place_windows ops n pairs g) ! i)) = (\<not> i < length (fst ?C'))
          \<and> hide_render (snd (fst (place_windows ops n pairs g) ! i)) = (\<not> i < length (fst ?C'))"
    using place_pairs_hide [of _ pairs ops "fst ?C'" 0 "snd ?C'"]
    by (simp add: pw sync_twins_def place_pairs_length split_beta)
  show ?thesis using a b c len v vl h by blast
qed


theorem sample_nonoverlap_separated_witness:
  "(2::int) \<le> int (length [new_pair 1, new_pair 2, new_pair 3, new_pair 4])
   \<and> fst (sample_nonoverlap alt_ops 2 d_default (0::nat))
       = [(- (9 / 10), - (6 / 10)), (9 / 10, 6 / 10)]
   \<and> d_default \<le> sqrt ((- (9 / 10) - 9 / 10)\<^sup>2 + (- (6 / 10) - 6 / 10)\<^sup>2)
   \<and> length (visible_pairs
        (fst (place_windows alt_ops 2 [new_pair 1, new_pair 2, new_pair 3, new_pair 4] 0))) = 2"
proof -
  have n: "(2::int) \<le> int (length [new_pair 1, new_pair 2, new_pair 3, new_pair 4])" by simp
  note T = sample_nonoverlap_separated [OF n, of alt_ops d_default 0]
  have sep: "d_default \<le> sqrt ((- (9 / 10) - 9 / 10)\<^sup>2 + (- (6 / 10) - 6 / 10)\<^sup>2)"
    using T [THEN conjunct1, rule_format, of 0 1] by (simp add: alt_sample)
  have vis: "length (visible_pairs
        (fst (place_windows alt_ops 2 [new_pair 1, new_pair 2, new_pair 3, new_pair 4] 0))) = 2"
    using T by (simp add: alt_sample)
  show ?thesis
    using n sep vis alt_sample by simp
qed

section \<open>The fallback pose\<close>

text \<open>
  Claim C6, as amended. In both single-camera scripts, when \<open>ensure_in_fov\<close> uses up
  its \<open>140\<close> tries without success the loop body leaves the window at the origin, with
  zero rotation and scale \<open>(0.35, 0.35, 1.0)\<close>, shown (neither render-hidden nor
  viewport-hidden) and under its own name. Every window of \<^verbatim>\<open>windows[:n_windows]\<close>
  stays shown whatever the sampler reported, and when each has its four mesh vertices
  the keypoint pass returns one record per window, in order, the fallback-posed ones
  included. The fallback scale is the scale of a window of side \<open>0.70\<close>, which lies
  inside \<open>WINDOW_SIZE_RANGE = (0.50, 1.10)\<close>, not below it.
\<close>

theorem fallback_pose_on_exhaustion:
  "(\<not> fst (fst (ensure_in_fov ops (world_to_camera_view eng) (matrix_world eng) cam
              (w\<lparr>hide_render := False, hide_viewport := False\<rparr>) 140 g)) \<longrightarrow>
      location (fst (place_window ops eng cam w g)) = (0, 0, 0)
    \<and> rotation_euler (fst (place_window ops eng cam w g)) = (0, 0, 0)
    \<and> scale (fst (place_window ops eng cam w g)) = (35 / 100, 35 / 100, 1)
    \<and> \<not> hide_render (fst (place_window ops eng cam w g))
    \<and> \<not> hide_viewport (fst (place_window ops eng cam w g))
    \<and> name (fst (place_window ops eng cam w g)) = name w)
   \<and> (\<not> fst (ensure_in_fov_bg ops (world_to_camera_view eng) (matrix_world eng) cam
              (w\<lparr>hide_render := False, hide_viewport := False\<rparr>) 140 g) \<longrightarrow>
      location (fst (place_window_bg ops eng cam w g)) = (0, 0, 0)
    \<and> rotation_euler (fst (place_window_bg ops eng cam w g)) = (0, 0, 0)
    \<and> scale (fst (place_window_bg ops eng cam w g)) = (35 / 100, 35 / 100, 1)
    \<and> \<not> hide_render (fst (place_window_bg ops eng cam w g))
    \<and> \<not> hide_viewport (fst (place_window_bg ops eng cam w g))
    \<and> name (fst (place_window_bg ops eng cam w g)) = name w)
   \<and> map name (fst (place_each (place_window ops eng cam) ws g)) = map name ws
   \<and> list_all (\<lambda>w. \<not> hide_render w \<and> \<not> hide_viewport w)
        (fst (place_each (place_window ops eng cam) ws g))
   \<and> map name (fst (place_each (place_window_bg ops eng cam) ws g)) = map name ws
   \<and> list_all (\<lambda>w. \<not> hide_render w \<and> \<not> hide_viewport w)
        (fst (place_each (place_window_bg ops eng cam) ws g))
   \<and> (list_all (\<lambda>w. 4 \<le> length (vertices w)) ws \<longrightarrow>
        (\<exists>rs. keypoint_records eng cam (fst (place_each (place_window ops eng cam) ws g)) = Inr rs
              \<and> map object_name rs = map name ws)
      \<and> (\<exists>rs. keypoint_records eng cam (fst (place_each (place_window_bg ops eng cam) ws g)) = Inr rs
              \<and> map object_name rs = map name ws))
   \<and> scale (fallback_pose w) = scale (apply_candidate (70 / 100, loc, rdeg) w)
   \<and> fst WINDOW_SIZE_RANGE \<le> 70 / 100 \<and> 70 / 100 \<le> snd WINDOW_SIZE_RANGE"
proof -
  have a: "\<not> fst (fst (ensure_in_fov ops (world_to_camera_view eng) (matrix_world eng) cam
              (w\<lparr>hide_render := False, hide_viewport := False\<rparr>) 140 g)) \<longrightarrow>
      location (fst (place_window ops eng cam w g)) = (0, 0, 0)
    \<and> rotation_euler (fst (place_window ops eng cam w g)) = (0, 0, 0)
    \<and> scale (fst (place_window ops eng cam w g)) = (35 / 100, 35 / 100, 1)
    \<and> \<not> hide_render (fst (place_window ops eng cam w g))
    \<and> \<not> hide_viewport (fst (place_window ops eng cam w g))
    \<and> name (fst (place_window ops eng cam w g)) = name w"
    by (simp add: place_window_def Let_def fallback_pose_def ensure_in_fov_keeps)
  have b: "\<not> fst (ensure_in_fov_bg ops (world_to_camera_view eng) (matrix_world eng) cam
              (w\<lparr>hide_render := False, hide_viewport := False\<rparr>) 140 g) \<longrightarrow>
      location (fst (place_window_bg ops eng cam w g)) = (0, 0, 0)
    \<and> rotation_euler (fst (place_window_bg ops eng cam w g)) = (0, 0, 0)
    \<and> scale (fst (place_window_bg ops eng cam w g)) = (35 / 100, 35 / 100, 1)
    \<and> \<not> hide_render (fst (place_window_bg ops eng cam w g))
    \<and> \<not> hide_viewport (fst (place_window_bg ops eng cam w g))
    \<and> name (fst (place_window_bg ops eng cam w g)) = name w"
    by (simp add: place_window_bg_def Let_def fallback_pose_def ensure_in_fov_bg_keeps)
  have c: "list_all (\<lambda>w. 4 \<le> length (vertices w)) ws \<longrightarrow>
        (\<exists>rs. keypoint_records eng cam (fst (place_each (place_window ops eng cam) ws g)) = Inr rs
              \<and> map object_name rs = map name ws)"
    using keypoint_records_ok [of "fst (place_each (place_window ops eng cam) ws g)" eng cam]
      list_all_vertices_cong [OF place_each_vertices [of ops eng cam ws g]]
    by (auto simp: place_each_names)
  have d: "list_all (\<lambda>w. 4 \<le> length (vertices w)) ws \<longrightarrow>
        (\<exists>rs. keypoint_records eng cam (fst (place_each (place_window_bg ops eng cam) ws g)) = Inr rs
              \<and> map object_name rs = map name ws)"
    using keypoint_records_ok [of "fst (place_each (place_window_bg ops eng cam) ws g)" eng cam]
      list_all_vertices_cong [OF place_each_vertices_bg [of ops eng cam ws g]]
    by (auto simp: place_each_names_bg)
  have e: "scale (fallback_pose w) = scale (apply_candidate (70 / 100, loc, rdeg) w)
   \<and> fst WINDOW_SIZE_RANGE \<le> 70 / 100 \<and> 70 / 100 \<le> snd WINDOW_SIZE_RANGE"
    by (simp add: fallback_pose_def apply_candidate_def WINDOW_SIZE_RANGE_def)
  show ?thesis
    using a b c d e place_each_names [of ops eng cam ws g] place_each_shown [of ops eng cam ws g]
      place_each_names_bg [of ops eng cam ws g] place_each_shown_bg [of ops eng cam ws g]
    by blast
qed


theorem fallback_pose_on_exhaustion_witness:
  "\<not> fst (fst (ensure_in_fov mid_ops (world_to_camera_view blind_engine)
            (matrix_world blind_engine) demo_camera
            ((new_window 1)\<lparr>hide_render := False, hide_viewport := False\<rparr>) 140 0))
   \<and> location (fst (place_window mid_ops blind_engine demo_camera (new_window 1) 0)) = (0, 0, 0)
   \<and> scale (fst (place_window mid_ops blind_engine demo_camera (new_window 1) 0))
       = (35 / 100, 35 / 100, 1)
   \<and> \<not> hide_render (fst (place_window mid_ops blind_engine demo_camera (new_window 1) 0))
   \<and> \<not> fst (ensure_in_fov_bg mid_ops (world_to_camera_view blind_engine)
            (matrix_world blind_engine) demo_camera
            ((new_window 1)\<lparr>hide_render := False, hide_viewport := False\<rparr>) 140 0)
   \<and> rotation_euler (fst (place_window_bg mid_ops blind_engine demo_camera (new_window 1) 0))
       = (0, 0, 0)
   \<and> list_all (\<lambda>w. 4 \<le> length (vertices w)) [new_window 1, new_window 2]
   \<and> (\<exists>rs. keypoint_records blind_engine demo_camera
              (fst (place_each (place_window mid_ops blind_engine demo_camera)
                     [new_window 1, new_window 2] 0)) = Inr rs
           \<and> map object_name rs = map name [new_window 1, new_window 2])"
proof -
  have v: "vertices ((new_window 1)\<lparr>hide_render := False, hide_viewport := False\<rparr>) \<noteq> []"
    by (simp add: new_window_def unit_quad_def)
  have w: "world_to_camera_view blind_engine = (\<lambda>c p. (0, 0, - 1))"
    by (simp add: blind_engine_def)
  have a: "\<not> fst (fst (ensure_in_fov mid_ops (world_to_camera_view blind_engine)
            (matrix_world blind_engine) demo_camera
            ((new_window 1)\<lparr>hide_render := False, hide_viewport := False\<rparr>) 140 0))"
    unfolding w by (rule ensure_fails [OF v])
  have b: "\<not> fst (ensure_in_fov_bg mid_ops (world_to_camera_view blind_engine)
            (matrix_world blind_engine) demo_camera
            ((new_window 1)\<lparr>hide_render := False, hide_viewport := False\<rparr>) 140 0)"
    unfolding w by (rule ensure_bg_fails [OF v])
  have c: "list_all (\<lambda>w. 4 \<le> length (vertices w)) [new_window 1, new_window 2]"
    by (simp add: new_window_def unit_quad_def)
  show ?thesis
    using a b c
      fallback_pose_on_exhaustion [of mid_ops blind_engine demo_camera "new_window 1" 0
        "[new_window 1, new_window 2]"]
    by blast
qed

text \<open>
  The claim as stated puts the fallback scale below the configured size range. The
  sampler turns a size into the scale \<open>size * 0.5\<close>, so the smallest configured size
  gives scale \<open>0.25\<close>, which is below the fallback's \<open>0.35\<close>; as a side length the
  fallback is \<open>0.70\<close>, above the lower end \<open>0.50\<close> of the range.
\<close>

theorem fallback_scale_in_range_counterexample:
  "scale (fallback_pose (new_window 1)) = (35 / 100, 35 / 100, 1)
   \<and> scale (apply_candidate (fst WINDOW_SIZE_RANGE, (0, 0, 0), (0, 0, 0)) (new_window 1))
       = (25 / 100, 25 / 100, 1)
   \<and> \<not> vx (scale (fallback_pose (new_window 1)))
         < vx (scale (apply_candidate (fst WINDOW_SIZE_RANGE, (0, 0, 0), (0, 0, 0)) (new_window 1)))
   \<and> fst WINDOW_SIZE_RANGE \<le> 2 * vx (scale (fallback_pose (new_window 1)))
   \<and> 2 * vx (scale (fallback_pose (new_window 1))) \<le> snd WINDOW_SIZE_RANGE"
  by (simp add: fallback_pose_def apply_candidate_def WINDOW_SIZE_RANGE_def vx_def)

section \<open>The passes leave the geometry alone\<close>

text \<open>
  Claim C4. In the single-camera scripts the scene at the end of a frame's capture is the
  scene after the RGB-pass and MASK-pass settings: the renderer only reads it. Across the
  RGB pass and the MASK pass every window and every occluder keeps all its attributes
  but its materials, hence its location, rotation and scale, and the camera is
  untouched; the same holds for the script with background. In the multi-camera script
  the loop over the cameras leaves the window pairs, the occluders and the cameras as
  they were, changing only the active camera, the colour mode, the collections'
  exclusion flags and the output path. When the engine's world matrix does not depend on
  an object's materials, the keypoints computed after the MASK render are those of the
  scene as randomization left it.
\<close>

theorem passes_keep_geometry:
  "fst (capture_frame eng render k f s) = mask_pass k f (rgb_pass k f s)
   \<and> map without_materials (coll_board (rgb_pass k f s)) = map without_materials (coll_board s)
   \<and> coll_occluder (rgb_pass k f s) = coll_occluder s
   \<and> cam_obj (rgb_pass k f s) = cam_obj s
   \<and> map without_materials (coll_board (mask_pass k f (rgb_pass k f s)))
       = map without_materials (coll_board s)
   \<and> map without_materials (coll_occluder (mask_pass k f (rgb_pass k f s)))
       = map without_materials (coll_occluder s)
   \<and> map pose (coll_board (mask_pass k f (rgb_pass k f s))) = map pose (coll_board s)
   \<and> map pose (coll_occluder (mask_pass k f (rgb_pass k f s))) = map pose (coll_occluder s)
   \<and> cam_obj (mask_pass k f (rgb_pass k f s)) = cam_obj s
   \<and> map without_materials (coll_board (mask_pass_bg k f (fst (rgb_pass_bg ops bg_files k f s g))))
       = map without_materials (coll_board s)
   \<and> map without_materials (coll_occluder (mask_pass_bg k f (fst (rgb_pass_bg ops bg_files k f s g))))
       = map without_materials (coll_occluder s)
   \<and> cam_obj (mask_pass_bg k f (fst (rgb_pass_bg ops bg_files k f s g))) = cam_obj s
   \<and> mc_pairs (fst (camera_loop eng render' f ci cs ms)) = mc_pairs ms
   \<and> mc_occluders (fst (camera_loop eng render' f ci cs ms)) = mc_occluders ms
   \<and> mc_cams (fst (camera_loop eng render' f ci cs ms)) = mc_cams ms
   \<and> ((\<forall>ob mats. matrix_world eng (ob\<lparr>materials := mats\<rparr>) = matrix_world eng ob) \<longrightarrow>
        keypoint_records eng (cam_obj (mask_pass k f (rgb_pass k f s)))
            (take k (coll_board (mask_pass k f (rgb_pass k f s))))
          = keypoint_records eng (cam_obj s) (take k (coll_board s)))"
proof -
  have a: "map without_materials (coll_board (mask_pass k f (rgb_pass k f s)))
       = map without_materials (coll_board s)"
    using mask_pass_frame [of k f "rgb_pass k f s"] rgb_pass_frame [of k f s] by simp
  have b: "map without_materials (coll_occluder (mask_pass k f (rgb_pass k f s)))
       = map without_materials (coll_occluder s)"
    using mask_pass_frame [of k f "rgb_pass k f s"] rgb_pass_frame [of k f s] by simp
  have c: "map without_materials (coll_board (mask_pass_bg k f (fst (rgb_pass_bg ops bg_files k f s g))))
       = map without_materials (coll_board s)"
    using mask_pass_bg_frame [of k f "fst (rgb_pass_bg ops bg_files k f s g)"]
      rgb_pass_bg_frame [of ops bg_files k f s g] by simp
  have d: "map without_materials (coll_occluder (mask_pass_bg k f (fst (rgb_pass_bg ops bg_files k f s g))))
       = map without_materials (coll_occluder s)"
    using mask_pass_bg_frame [of k f "fst (rgb_pass_bg ops bg_files k f s g)"]
      rgb_pass_bg_frame [of ops bg_files k f s g] by simp
  have e: "cam_obj (mask_pass_bg k f (fst (rgb_pass_bg ops bg_files k f s g))) = cam_obj s"
    using mask_pass_bg_frame [of k f "fst (rgb_pass_bg ops bg_files k f s g)"]
      rgb_pass_bg_frame [of ops bg_files k f s g] by simp
  have h: "cam_obj (mask_pass k f (rgb_pass k f s)) = cam_obj s"
    using mask_pass_frame [of k f "rgb_pass k f s"] rgb_pass_frame [of k f s] by simp
  show ?thesis
    using a b c d e h without_materials_pose [OF a] without_materials_pose [OF b]
      rgb_pass_frame [of k f s] capture_frame_scene [of eng render k f s]
      camera_loop_objects [of eng render' f ci cs ms] capture_keypoints [of eng k f s]
    by blast
qed


theorem passes_keep_geometry_witness:
  "(\<forall>ob mats. matrix_world demo_engine (ob\<lparr>materials := mats\<rparr>) = matrix_world demo_engine ob)
   \<and> map pose (coll_board (mask_pass 1 1 (rgb_pass 1 1 demo_scene)))
       = map pose (coll_board demo_scene)
   \<and> map materials (coll_board (mask_pass 1 1 (rgb_pass 1 1 demo_scene)))
       = [[Window_MASK_Union], [Window_RGB_EmitTransp]]
   \<and> map materials (coll_occluder (mask_pass 1 1 (rgb_pass 1 1 demo_scene)))
       = [[Black_Emission]]
   \<and> keypoint_records demo_engine (cam_obj (mask_pass 1 1 (rgb_pass 1 1 demo_scene)))
         (take 1 (coll_board (mask_pass 1 1 (rgb_pass 1 1 demo_scene))))
       = keypoint_records demo_engine (cam_obj demo_scene) (take 1 (coll_board demo_scene))"
proof -
  have h: "\<forall>ob mats. matrix_world demo_engine (ob\<lparr>materials := mats\<rparr>) = matrix_world demo_engine ob"
    by (simp add: demo_engine_def flat_mw_materials)
  have m: "map materials (coll_board (mask_pass 1 1 (rgb_pass 1 1 demo_scene)))
             = [[Window_MASK_Union], [Window_RGB_EmitTransp]]
         \<and> map materials (coll_occluder (mask_pass 1 1 (rgb_pass 1 1 demo_scene)))
             = [[Black_Emission]]"
    by (simp add: mask_pass_def rgb_pass_def set_window_material_def demo_scene_def
        empty_scene_def new_window_def demo_occluder_def)
  show ?thesis
    using h m passes_keep_geometry [of demo_engine "\<lambda>s. ()" 1 1 demo_scene mid_ops "[]" 0
        "\<lambda>s. ()" 1 "[]" demo_mc_scene]
    by blast
qed

section \<open>The MASK-pass configuration\<close>

text \<open>
  Claim C8, as amended. In the MASK pass of both single-camera scripts every visible
  window carries the white union mask material alone, every mesh occluder carries the
  black emission material alone, and the world background is black; the occluders a
  frame's randomization spawns are all meshes, so all of them are black at the mask
  render. In the multi-camera script the MASK pass assigns no material: at the mask
  render the occluder collection and the RGB windows are excluded, the mask twins and
  the backdrop are included, the light's collection is excluded, and the occluders and
  the backdrop are as they were; the mask twins keep the mask material they were built
  with through window placement.
\<close>

theorem mask_pass_configuration:
  "list_all (\<lambda>w. materials w = [Window_MASK_Union]) (take k (coll_board (mask_pass k f s)))
   \<and> list_all (\<lambda>ob. otype ob = MESH \<longrightarrow> materials ob = [Black_Emission])
        (coll_occluder (mask_pass k f s))
   \<and> world_color (mask_pass k f s) = Some (0, 0, 0, 1)
   \<and> list_all (\<lambda>w. materials w = [Window_MASK_Union]) (take k (coll_board (mask_pass_bg k f s)))
   \<and> list_all (\<lambda>ob. otype ob = MESH \<longrightarrow> materials ob = [Black_Emission])
        (coll_occluder (mask_pass_bg k f s))
   \<and> world_color (mask_pass_bg k f s) = Some (0, 0, 0, 1)
   \<and> list_all (\<lambda>ob. materials ob = [Black_Emission])
        (coll_occluder (mask_pass k f (rgb_pass k f (fst (randomize_frame ops eng lo hi s g)))))
   \<and> lc_occluders_exclude (fst (camera_pass eng render f ci cam ms))
   \<and> \<not> lc_windows_msk_exclude (fst (camera_pass eng render f ci cam ms))
   \<and> lc_windows_rgb_exclude (fst (camera_pass eng render f ci cam ms))
   \<and> \<not> lc_backdrop_exclude (fst (camera_pass eng render f ci cam ms))
   \<and> lc_misc_exclude (fst (camera_pass eng render f ci cam ms))
   \<and> mc_occluders (fst (camera_pass eng render f ci cam ms)) = mc_occluders ms
   \<and> mc_backdrop (fst (camera_pass eng render f ci cam ms)) = mc_backdrop ms
   \<and> map (\<lambda>p. materials (snd p)) (fst (place_windows ops n ps g))
       = map (\<lambda>p. materials (snd p)) ps"
proof -
  have "list_all (\<lambda>ob. otype ob = MESH)
          (coll_occluder (rgb_pass k f (fst (randomize_frame ops eng lo hi s g))))"
    using randomize_frame_occluders_mesh [of ops eng lo hi s g]
    by (simp add: rgb_pass_def)
  then have a: "list_all (\<lambda>ob. materials ob = [Black_Emission])
        (coll_occluder (mask_pass k f (rgb_pass k f (fst (randomize_frame ops eng lo hi s g)))))"
    by (rule mask_pass_all_black)
  show ?thesis
    using a mask_pass_materials [of k f s] mask_pass_bg_materials [of k f s]
      camera_pass_flags [of eng render f ci cam ms] camera_pass_objects [of eng render f ci cam ms]
      place_windows_twin_materials [of ops n ps g]
    by blast
qed

theorem mask_pass_configuration_witness:
  "map materials (take 1 (coll_board (mask_pass 1 1 demo_scene))) = [[Window_MASK_Union]]
   \<and> list_all (\<lambda>w. materials w = [Window_MASK_Union]) (take 1 (coll_board (mask_pass 1 1 demo_scene)))
   \<and> map otype (coll_occluder (mask_pass 1 1 demo_scene)) = [MESH]
   \<and> list_all (\<lambda>ob. otype ob = MESH \<longrightarrow> materials ob = [Black_Emission])
        (coll_occluder (mask_pass 1 1 demo_scene))
   \<and> world_color (mask_pass 1 1 demo_scene) = Some (0, 0, 0, 1)
   \<and> lc_occluders_exclude (fst (camera_pass demo_engine (\<lambda>s. ()) 1 1 demo_camera demo_mc_scene))"
proof -
  have a: "map materials (take 1 (coll_board (mask_pass 1 1 demo_scene))) = [[Window_MASK_Union]]
         \<and> map otype (coll_occluder (mask_pass 1 1 demo_scene)) = [MESH]"
    by (simp add: mask_pass_def set_window_material_def demo_scene_def empty_scene_def
        new_window_def demo_occluder_def)
  show ?thesis
    using a mask_pass_configuration [of 1 1 demo_scene mid_ops demo_engine 1 1 0 "\<lambda>s. ()" 1 demo_camera
        demo_mc_scene 1 "[]"]
    by blast
qed

text \<open>
  The claim as stated fails on the multi-camera script: at its mask render the occluder
  is excluded from the render and still carries its own material, not a black one, and
  the backdrop stays in the render with its own material.
\<close>

theorem mask_pass_multi_camera_counterexample:
  "lc_occluders_exclude (fst (camera_pass demo_engine (\<lambda>s. ()) 1 1 demo_camera demo_mc_scene))
   \<and> map materials (mc_occluders (fst (camera_pass demo_engine (\<lambda>s. ()) 1 1 demo_camera demo_mc_scene)))
       = [[Occ_Mat (1 / 2) (1 / 2) (1 / 2)]]
   \<and> map materials (mc_occluders (fst (camera_pass demo_engine (\<lambda>s. ()) 1 1 demo_camera demo_mc_scene)))
       \<noteq> [[Black_Emission]]
   \<and> \<not> lc_backdrop_exclude (fst (camera_pass demo_engine (\<lambda>s. ()) 1 1 demo_camera demo_mc_scene))
   \<and> materials (mc_backdrop (fst (camera_pass demo_engine (\<lambda>s. ()) 1 1 demo_camera demo_mc_scene)))
       = [BG_Mat 5]"
  by (simp add: camera_pass_scene set_excludes_for_mask_def set_excludes_for_rgb_def
      demo_mc_scene_def demo_occluder_def)


end
